theory Spec2Isabelle
  imports Main
begin

section \<open>Go library functions used by porting.go\<close>

text \<open>
  Go strings are byte sequences; they are modelled as \<open>string\<close> (a list of characters).
  A Go \<open>error\<close> is modelled by its message, the value of \<open>err.Error()\<close>: the program
  only ever tests an error against \<open>nil\<close>, wraps it, or searches its message.
\<close>

type_synonym error = string

text \<open>\<open>strings.HasPrefix(s, prefix)\<close>: \<open>len(s) >= len(prefix) && s[:len(prefix)] == prefix\<close>.\<close>

definition HasPrefix :: "string \<Rightarrow> string \<Rightarrow> bool" where
  "HasPrefix s pre = (length pre \<le> length s \<and> take (length pre) s = pre)"

text \<open>\<open>strings.Index(s, substr)\<close>: the index of the first instance of \<open>substr\<close> in \<open>s\<close>;
  Go's \<open>-1\<close> is \<open>None\<close>.\<close>

fun Index :: "string \<Rightarrow> string \<Rightarrow> nat option" where
  "Index [] substr = (if substr = [] then Some 0 else None)"
| "Index (c # cs) substr =
     (if HasPrefix (c # cs) substr then Some 0 else map_option Suc (Index cs substr))"

text \<open>\<open>strings.Contains(s, substr)\<close>: \<open>Index(s, substr) >= 0\<close>.\<close>

definition Contains :: "string \<Rightarrow> string \<Rightarrow> bool" where
  "Contains s substr = (Index s substr \<noteq> None)"

text \<open>
  \<open>strings.Split(s, sep)\<close> is \<open>genSplit(s, sep, 0, -1)\<close>: the loop looks for the next instance
  of \<open>sep\<close> with \<open>Index\<close>, emits the text before it and goes on behind it; the rest of the
  string is the last element. With an empty separator Go splits after each UTF-8
  sequence; that branch is written per character here and is never reached by this
  program, whose two separators are non-empty constants.
\<close>

function genSplit :: "string \<Rightarrow> string \<Rightarrow> string list" where
  "genSplit s sep =
     (if sep = [] then map (\<lambda>c. [c]) s
      else (case Index s sep of
              None \<Rightarrow> [s]
            | Some m \<Rightarrow> take m s # genSplit (drop (m + length sep) s) sep))"
  by pat_completeness auto
termination genSplit
proof (relation "measure (\<lambda>(s, sep). length s)")
  show "wf (measure (\<lambda>(s, sep). length s))" by simp
next
  fix s sep :: string and m :: nat
  assume sep: "sep \<noteq> []" and found: "Index s sep = Some m"
  have bound: "Index t sep = Some k \<Longrightarrow> k + length sep \<le> length t" for t k
  proof (induction t arbitrary: k)
    case Nil
    then show ?case by (simp split: if_splits)
  next
    case (Cons c cs)
    show ?case
    proof (cases "HasPrefix (c # cs) sep")
      case True
      with Cons.prems show ?thesis by (simp add: HasPrefix_def)
    next
      case False
      with Cons.prems obtain j where "Index cs sep = Some j" and "k = Suc j"
        by auto
      with Cons.IH [of j] show ?thesis by simp
    qed
  qed
  from sep bound [OF found] have "length s - (m + length sep) < length s"
    by (cases sep) simp_all
  then show "((drop (m + length sep) s, sep), (s, sep)) \<in> measure (\<lambda>(s, sep). length s)"
    by simp
qed

declare genSplit.simps [simp del]

definition Split :: "string \<Rightarrow> string \<Rightarrow> string list" where
  "Split s sep = genSplit s sep"

text \<open>An index expression \<open>a[1]\<close> on a slice: Go panics when the index is out of range.\<close>

definition index1 :: "string list \<Rightarrow> string option" where
  "index1 a = (if 1 < length a then Some (a ! 1) else None)"

text \<open>\<open>fmt.Sprintf("%d", n)\<close> for an \<open>int\<close>: decimal digits, with a minus sign when negative.\<close>

fun digits :: "nat \<Rightarrow> string" where
  "digits n = (if n < 10 then [''0123456789'' ! n]
               else digits (n div 10) @ [''0123456789'' ! (n mod 10)])"

declare digits.simps [simp del]

definition Itoa :: "int \<Rightarrow> string" where
  "Itoa i = (if i < 0 then ''-'' @ digits (nat (- i)) else digits (nat i))"

text \<open>\<open>errors.Wrapf(err, format, args...)\<close> of github.com/pkg/errors for a non-nil \<open>err\<close>:
  the message of the result is the formatted text, a colon and a space, and the
  message of the cause. The argument \<open>msg\<close> is the text already formatted.\<close>

definition Wrapf :: "error \<Rightarrow> string \<Rightarrow> error" where
  "Wrapf err msg = msg @ '': '' @ err"

section \<open>The data of go-github that the program reads\<close>

text \<open>
  Pointer fields are options; the accessors \<open>GetName\<close>, \<open>GetLogin\<close>, \<open>GetNumber\<close>,
  \<open>GetTitle\<close> of go-github return the zero value on a nil receiver or a nil field.
  \<open>portPR\<close> sets every field of the \<open>NewPullRequest\<close> it sends, so these are plain
  values. Of \<open>prInformation\<close> the field \<open>repo\<close> is left out: it only prepares the logger.
  The context and the installation id, which no decision of the program reads, are left
  out as well.
\<close>

record Label =
  Label_Name :: "string option"

record User =
  Login :: "string option"

record Team =
  Team_Name :: "string option"

record Reviewers =
  Users :: "User option list"
  Teams :: "Team option list"

record PullRequest =
  Number :: "int option"
  Title :: "string option"
  PR_User :: "User option"
  Labels :: "Label option list"
  MergeCommitSHA :: "string option"

record GitObject =
  SHA :: "string option"

record Reference =
  Ref :: "string option"
  Object :: "GitObject option"

record NewPullRequest =
  NPR_Title :: string
  Head :: string
  Base :: string
  Body :: string
  MaintainerCanModify :: bool
  Draft :: bool

record prInformation =
  num :: int
  repoOwner :: string
  repoName :: string
  merged :: bool

definition Label_GetName :: "Label option \<Rightarrow> string" where
  "Label_GetName l = (case l of None \<Rightarrow> '''' | Some x \<Rightarrow> (case Label_Name x of None \<Rightarrow> '''' | Some n \<Rightarrow> n))"

definition GetLogin :: "User option \<Rightarrow> string" where
  "GetLogin u = (case u of None \<Rightarrow> '''' | Some x \<Rightarrow> (case Login x of None \<Rightarrow> '''' | Some n \<Rightarrow> n))"

definition Team_GetName :: "Team option \<Rightarrow> string" where
  "Team_GetName t = (case t of None \<Rightarrow> '''' | Some x \<Rightarrow> (case Team_Name x of None \<Rightarrow> '''' | Some n \<Rightarrow> n))"

definition GetNumber :: "PullRequest \<Rightarrow> int" where
  "GetNumber p = (case Number p of None \<Rightarrow> 0 | Some n \<Rightarrow> n)"

definition GetTitle :: "PullRequest \<Rightarrow> string" where
  "GetTitle p = (case Title p of None \<Rightarrow> '''' | Some t \<Rightarrow> t)"

definition GetMergeCommitSHA :: "PullRequest \<Rightarrow> string" where
  "GetMergeCommitSHA p = (case MergeCommitSHA p of None \<Rightarrow> '''' | Some t \<Rightarrow> t)"

section \<open>Constants of the program\<close>

definition backportLabelPrefix :: string where
  "backportLabelPrefix = ''Backport to: ''"

definition forwardportLabelPrefix :: string where
  "forwardportLabelPrefix = ''Forwardport to: ''"

definition backport :: string where
  "backport = ''backport''"

definition forwardport :: string where
  "forwardport = ''forwardport''"

section \<open>Planning: the label loop of backportPR\<close>

text \<open>
  The three slices that the loop over \<open>pr.Labels\<close> fills (lines 405 to 421). The loop
  skips a nil label, and reads the branch of a port label as element 1 of
  \<open>strings.Split(name, prefix)\<close>. \<open>None\<close> is the run-time panic of an index out of range.
\<close>

record plan =
  backportBranches :: "string list"
  forwardportBranches :: "string list"
  otherLabels :: "string list"

definition emptyPlan :: plan where
  "emptyPlan = \<lparr>backportBranches = [], forwardportBranches = [], otherLabels = []\<rparr>"

fun planLabels :: "Label option list \<Rightarrow> plan \<Rightarrow> plan option" where
  "planLabels [] p = Some p"
| "planLabels (None # rest) p = planLabels rest p"
| "planLabels (Some l # rest) p =
     (if HasPrefix (Label_GetName (Some l)) backportLabelPrefix then
        (case index1 (Split (Label_GetName (Some l)) backportLabelPrefix) of
           None \<Rightarrow> None
         | Some b \<Rightarrow> planLabels rest (p\<lparr>backportBranches := backportBranches p @ [b]\<rparr>))
      else if HasPrefix (Label_GetName (Some l)) forwardportLabelPrefix then
        (case index1 (Split (Label_GetName (Some l)) forwardportLabelPrefix) of
           None \<Rightarrow> None
         | Some b \<Rightarrow> planLabels rest (p\<lparr>forwardportBranches := forwardportBranches p @ [b]\<rparr>))
      else planLabels rest (p\<lparr>otherLabels := otherLabels p @ [Label_GetName (Some l)]\<rparr>))"

text \<open>The names that the loop reads: those of the labels that are not nil, in order.\<close>

definition labelNames :: "Label option list \<Rightarrow> string list" where
  "labelNames labels = map Label_GetName (filter (\<lambda>l. l \<noteq> None) labels)"

section \<open>The outside world: the forge API, the git command line, the logger\<close>

text \<open>
  Every call that leaves the process is an event: the call with its arguments and
  what it returned. \<open>execCmd\<close> (dir, name, args) is the repository's helper that runs a
  command; its output is never read by portPR, so only its error is kept.
  \<open>logger_Err\<close> is a log entry: the error attached to it and its message.
\<close>

datatype event =
    Git_GetRef string string string "error + Reference"
  | Git_CreateRef string string Reference "error option"
  | execCmd string string "string list" "error option"
  | PullRequests_Create string string NewPullRequest "error + PullRequest"
  | Issues_AddLabelsToIssue string string int "string list" "error option"
  | Issues_CreateComment string string int string "error option"
  | PullRequests_ListReviewers string string int "error + Reviewers"
  | PullRequests_RequestReviewers string string int "string list" "error option"
  | PullRequests_Get string string int "error + PullRequest"
  | logger_Err error string

text \<open>
  The world answers a call as a function of everything that happened before (the
  history of events) and of the call's arguments. Nothing is assumed about it: every
  theorem below holds for every such world.
\<close>

record services =
  srv_GetRef :: "event list \<Rightarrow> string \<Rightarrow> string \<Rightarrow> string \<Rightarrow> error + Reference"
  srv_CreateRef :: "event list \<Rightarrow> string \<Rightarrow> string \<Rightarrow> Reference \<Rightarrow> error option"
  srv_execCmd :: "event list \<Rightarrow> string \<Rightarrow> string \<Rightarrow> string list \<Rightarrow> error option"
  srv_Create :: "event list \<Rightarrow> string \<Rightarrow> string \<Rightarrow> NewPullRequest \<Rightarrow> error + PullRequest"
  srv_AddLabelsToIssue :: "event list \<Rightarrow> string \<Rightarrow> string \<Rightarrow> int \<Rightarrow> string list \<Rightarrow> error option"
  srv_CreateComment :: "event list \<Rightarrow> string \<Rightarrow> string \<Rightarrow> int \<Rightarrow> string \<Rightarrow> error option"
  srv_ListReviewers :: "event list \<Rightarrow> string \<Rightarrow> string \<Rightarrow> int \<Rightarrow> error + Reviewers"
  srv_RequestReviewers :: "event list \<Rightarrow> string \<Rightarrow> string \<Rightarrow> int \<Rightarrow> string list \<Rightarrow> error option"
  srv_Get :: "event list \<Rightarrow> string \<Rightarrow> string \<Rightarrow> int \<Rightarrow> error + PullRequest"

section \<open>portPR\<close>

text \<open>
  A Go function ends by returning or by a run-time panic. \<open>portPR\<close> returns
  \<open>(int, error)\<close>, and every error return of the source returns the number 0 with it, so
  its outcome is \<open>Panic\<close>, \<open>Fail err\<close> (the error) or \<open>Done n\<close> (the number of the new pull
  request, with a nil error).
\<close>

datatype 'a outcome = Panic | Fail error | Done 'a

text \<open>
  The second component of a step's result is the list of events of the step and of all
  steps after it, in order. The function is written as one definition per step of the
  source, last step first; \<open>h\<close> is the history before the step. A step's event goes in
  front of the events of the steps that follow it.
\<close>

definition emit :: "event \<Rightarrow> 'r \<times> event list \<Rightarrow> 'r \<times> event list" where
  "emit e p = (fst p, e # snd p)"

definition botAuthor :: string where
  "botAuthor = ''--author=\"vitess-bot[bot] <108069721+vitess-bot[bot]@users.noreply.github.com>\"''"

definition localPath :: string where
  "localPath = ''/tmp/vitess''"

text \<open>Lines 156 to 176: list the reviewers of the original pull request, request them.\<close>

definition portPR_reviewers ::
  "services \<Rightarrow> prInformation \<Rightarrow> int \<Rightarrow> string \<Rightarrow> event list \<Rightarrow> int outcome \<times> event list" where
  "portPR_reviewers svc prInfo newPRNumber originalPRAuthor h =
     (let r = srv_ListReviewers svc h (repoOwner prInfo) (repoName prInfo) (num prInfo);
          e = PullRequests_ListReviewers (repoOwner prInfo) (repoName prInfo) (num prInfo) r
      in case r of
           Inl err \<Rightarrow>
             (Fail (Wrapf err (''Failed to get the list of reviewers on Pull Request '' @ Itoa (num prInfo))), [e])
         | Inr oldReviewers \<Rightarrow>
             (let reviewers = map GetLogin (Users oldReviewers) @ map Team_GetName (Teams oldReviewers)
                                @ [originalPRAuthor];
                  r2 = srv_RequestReviewers svc (h @ [e]) (repoOwner prInfo) (repoName prInfo) newPRNumber reviewers;
                  e2 = PullRequests_RequestReviewers (repoOwner prInfo) (repoName prInfo) newPRNumber reviewers r2
              in case r2 of
                   Some err \<Rightarrow> (Fail (Wrapf err ''''), [e, e2])
                 | None \<Rightarrow> (Done newPRNumber, [e, e2])))"

text \<open>Lines 134 to 154: the conflict notice, only when the cherry-pick conflicted.\<close>

definition conflictCommentBody ::
  "string \<Rightarrow> string \<Rightarrow> prInformation \<Rightarrow> int \<Rightarrow> string \<Rightarrow> string \<Rightarrow> string" where
  "conflictCommentBody originalPRAuthor portType prInfo newPRNumber branch mergedCommitSHA =
     ''Hello @'' @ originalPRAuthor @ '', there are conflicts in this '' @ portType @ ''.''
     @ [CHR 0x0A, CHR 0x0A]
     @ ''Please addresse them in order to merge this Pull Request. You can execute the snippet below to reset your branch and resolve the conflict manually.''
     @ [CHR 0x0A, CHR 0x0A]
     @ ''Make sure you replace `origin` by the name of the '' @ repoOwner prInfo @ ''/'' @ repoName prInfo
     @ '' remote '' @ [CHR 0x0A] @ ''```'' @ [CHR 0x0A]
     @ ''git fetch --all'' @ [CHR 0x0A]
     @ ''gh pr checkout '' @ Itoa newPRNumber @ '' -R '' @ repoOwner prInfo @ ''/'' @ repoName prInfo @ [CHR 0x0A]
     @ ''git reset --hard origin/'' @ branch @ [CHR 0x0A]
     @ ''git cherry-pick -m 1 '' @ mergedCommitSHA @ [CHR 0x0A]"

definition portPR_comment ::
  "services \<Rightarrow> prInformation \<Rightarrow> PullRequest \<Rightarrow> string \<Rightarrow> string \<Rightarrow> string \<Rightarrow> bool \<Rightarrow> int
     \<Rightarrow> event list \<Rightarrow> int outcome \<times> event list" where
  "portPR_comment svc prInfo pr mergedCommitSHA branch portType conflict newPRNumber h =
     (let originalPRAuthor = GetLogin (PR_User pr) in
      if conflict then
        (let body = conflictCommentBody originalPRAuthor portType prInfo newPRNumber branch mergedCommitSHA;
             r = srv_CreateComment svc h (repoOwner prInfo) (repoName prInfo) newPRNumber body;
             e = Issues_CreateComment (repoOwner prInfo) (repoName prInfo) newPRNumber body r
         in case r of
              Some err \<Rightarrow>
                (Fail (Wrapf err (''Failed to comment conflict notice on Pull Request '' @ Itoa newPRNumber)), [e])
            | None \<Rightarrow> emit e (portPR_reviewers svc prInfo newPRNumber originalPRAuthor (h @ [e])))
      else portPR_reviewers svc prInfo newPRNumber originalPRAuthor h)"

text \<open>Lines 118 to 132: the labels of the new pull request. \<open>append\<close> on the slice
  \<open>labels\<close> yields the elements of \<open>labels\<close> followed by the new ones; the caller's slice
  keeps its length, so the list is all that is observed.\<close>

definition labelsToAdd :: "string list \<Rightarrow> bool \<Rightarrow> string \<Rightarrow> string list" where
  "labelsToAdd labels conflict portType =
     (let l1 = (if conflict then labels @ [''Merge Conflict'', ''Skip CI''] else labels)
      in if portType = backport then l1 @ [''Backport'']
         else if portType = forwardport then l1 @ [''Forwardport'']
         else l1)"

definition portPR_labels ::
  "services \<Rightarrow> prInformation \<Rightarrow> PullRequest \<Rightarrow> string \<Rightarrow> string \<Rightarrow> string \<Rightarrow> string list \<Rightarrow> bool
     \<Rightarrow> PullRequest \<Rightarrow> event list \<Rightarrow> int outcome \<times> event list" where
  "portPR_labels svc prInfo pr mergedCommitSHA branch portType labels conflict newPRCreated h =
     (let newPRNumber = GetNumber newPRCreated;
          r = srv_AddLabelsToIssue svc h (repoOwner prInfo) (repoName prInfo) newPRNumber
                (labelsToAdd labels conflict portType);
          e = Issues_AddLabelsToIssue (repoOwner prInfo) (repoName prInfo) newPRNumber
                (labelsToAdd labels conflict portType) r
      in case r of
           Some err \<Rightarrow> (Fail (Wrapf err (''Failed to assign labels to Pull Request '' @ Itoa newPRNumber)), [e])
         | None \<Rightarrow>
             emit e (portPR_comment svc prInfo pr mergedCommitSHA branch portType conflict newPRNumber (h @ [e])))"

text \<open>Lines 104 to 116: the new pull request; its draft flag is the conflict flag.\<close>

definition newPR :: "PullRequest \<Rightarrow> string \<Rightarrow> string \<Rightarrow> string \<Rightarrow> bool \<Rightarrow> NewPullRequest" where
  "newPR pr branch portType newBranch conflict =
     \<lparr>NPR_Title = ''['' @ branch @ ''] '' @ GetTitle pr @ '' (#'' @ Itoa (GetNumber pr) @ '')'',
      Head = newBranch,
      Base = branch,
      Body = ''## Description'' @ [CHR 0x0A] @ ''This is a '' @ portType @ '' of #'' @ Itoa (GetNumber pr),
      MaintainerCanModify = True,
      Draft = conflict\<rparr>"

definition portPR_create ::
  "services \<Rightarrow> prInformation \<Rightarrow> PullRequest \<Rightarrow> string \<Rightarrow> string \<Rightarrow> string \<Rightarrow> string list \<Rightarrow> string
     \<Rightarrow> bool \<Rightarrow> event list \<Rightarrow> int outcome \<times> event list" where
  "portPR_create svc prInfo pr mergedCommitSHA branch portType labels newBranch conflict h =
     (let r = srv_Create svc h (repoOwner prInfo) (repoName prInfo) (newPR pr branch portType newBranch conflict);
          e = PullRequests_Create (repoOwner prInfo) (repoName prInfo) (newPR pr branch portType newBranch conflict) r
      in case r of
           Inl err \<Rightarrow> (Fail (Wrapf err ''''), [e])
         | Inr newPRCreated \<Rightarrow>
             emit e (portPR_labels svc prInfo pr mergedCommitSHA branch portType labels conflict newPRCreated
                       (h @ [e])))"

text \<open>Lines 98 to 102: push the working branch. The format verb of the pull request
  number is \<open>%s\<close> for an \<open>int\<close>, which fmt prints as \<open>%!s(int=N)\<close>.\<close>

definition portPR_push ::
  "services \<Rightarrow> prInformation \<Rightarrow> PullRequest \<Rightarrow> string \<Rightarrow> string \<Rightarrow> string \<Rightarrow> string list \<Rightarrow> string
     \<Rightarrow> bool \<Rightarrow> event list \<Rightarrow> int outcome \<times> event list" where
  "portPR_push svc prInfo pr mergedCommitSHA branch portType labels newBranch conflict h =
     (let r = srv_execCmd svc h localPath ''git'' [''push'', ''origin'', newBranch];
          e = execCmd localPath ''git'' [''push'', ''origin'', newBranch] r
      in case r of
           Some err \<Rightarrow>
             (Fail (Wrapf err (''Failed to push '' @ newBranch @ '' to backport Pull Request %!s(int=''
                                 @ Itoa (num prInfo) @ '')'')), [e])
         | None \<Rightarrow>
             emit e (portPR_create svc prInfo pr mergedCommitSHA branch portType labels newBranch conflict
                       (h @ [e])))"

text \<open>
  Lines 73 to 96: the cherry-pick. The outcome \<open>Done c\<close> carries the value of the local
  variable \<open>conflict\<close> with which the function goes on. An error whose message contains
  \<open>conflicts\<close> is a merge conflict: everything is staged and committed as it is. Any
  other error is returned. Without an error the commit is amended to the bot's name.
\<close>

definition cherryPick ::
  "services \<Rightarrow> prInformation \<Rightarrow> string \<Rightarrow> string \<Rightarrow> event list \<Rightarrow> bool outcome \<times> event list" where
  "cherryPick svc prInfo mergedCommitSHA newBranch h =
     (let r = srv_execCmd svc h localPath ''git'' [''cherry-pick'', ''-m'', ''1'', mergedCommitSHA];
          e = execCmd localPath ''git'' [''cherry-pick'', ''-m'', ''1'', mergedCommitSHA] r
      in case r of
           Some err \<Rightarrow>
             if Contains err ''conflicts'' then
               (let r2 = srv_execCmd svc (h @ [e]) localPath ''git'' [''add'', ''.''];
                    e2 = execCmd localPath ''git'' [''add'', ''.''] r2
                in case r2 of
                     Some err2 \<Rightarrow>
                       (Fail (Wrapf err2 (''Failed to do 'git add' on branch '' @ newBranch
                                @ '' to backport Pull Request '' @ Itoa (num prInfo))), [e, e2])
                   | None \<Rightarrow>
                       (let r3 = srv_execCmd svc (h @ [e, e2]) localPath ''git''
                                   [''commit'', botAuthor, ''-m'',
                                    ''Cherry-pick '' @ mergedCommitSHA @ '' with conflicts''];
                            e3 = execCmd localPath ''git''
                                   [''commit'', botAuthor, ''-m'',
                                    ''Cherry-pick '' @ mergedCommitSHA @ '' with conflicts''] r3
                        in case r3 of
                             Some err3 \<Rightarrow>
                               (Fail (Wrapf err3 (''Failed to do 'git commit' on branch '' @ newBranch
                                        @ '' to backport Pull Request '' @ Itoa (num prInfo))), [e, e2, e3])
                           | None \<Rightarrow> (Done True, [e, e2, e3])))
             else
               (Fail (Wrapf err (''Failed to cherry-pick '' @ mergedCommitSHA @ '' to branch '' @ newBranch
                        @ '' to backport Pull Request '' @ Itoa (num prInfo))), [e])
         | None \<Rightarrow>
             (let r2 = srv_execCmd svc (h @ [e]) localPath ''git'' [''commit'', ''--amend'', botAuthor, ''--no-edit''];
                  e2 = execCmd localPath ''git'' [''commit'', ''--amend'', botAuthor, ''--no-edit''] r2
              in case r2 of
                   Some err2 \<Rightarrow>
                     (Fail (Wrapf err2 (''Failed to do 'git commit --amend' on branch '' @ newBranch
                              @ '' to backport Pull Request '' @ Itoa (num prInfo))), [e, e2])
                 | None \<Rightarrow> (Done False, [e, e2])))"

definition portPR_cherryPick ::
  "services \<Rightarrow> prInformation \<Rightarrow> PullRequest \<Rightarrow> string \<Rightarrow> string \<Rightarrow> string \<Rightarrow> string list \<Rightarrow> string
     \<Rightarrow> event list \<Rightarrow> int outcome \<times> event list" where
  "portPR_cherryPick svc prInfo pr mergedCommitSHA branch portType labels newBranch h =
     (case cherryPick svc prInfo mergedCommitSHA newBranch h of
        (Panic, es) \<Rightarrow> (Panic, es)
      | (Fail err, es) \<Rightarrow> (Fail err, es)
      | (Done conflict, es) \<Rightarrow>
          (case portPR_push svc prInfo pr mergedCommitSHA branch portType labels newBranch conflict (h @ es) of
             (res, es2) \<Rightarrow> (res, es @ es2)))"

text \<open>Lines 67 to 71: check the working branch out.\<close>

definition portPR_checkout ::
  "services \<Rightarrow> prInformation \<Rightarrow> PullRequest \<Rightarrow> string \<Rightarrow> string \<Rightarrow> string \<Rightarrow> string list \<Rightarrow> string
     \<Rightarrow> event list \<Rightarrow> int outcome \<times> event list" where
  "portPR_checkout svc prInfo pr mergedCommitSHA branch portType labels newBranch h =
     (let r = srv_execCmd svc h localPath ''git'' [''checkout'', newBranch];
          e = execCmd localPath ''git'' [''checkout'', newBranch] r
      in case r of
           Some err \<Rightarrow>
             (Fail (Wrapf err (''Failed to checkout repository '' @ repoOwner prInfo @ ''/'' @ repoName prInfo
                      @ '' to branch '' @ newBranch @ '' to backport Pull Request '' @ Itoa (num prInfo))), [e])
         | None \<Rightarrow>
             emit e (portPR_cherryPick svc prInfo pr mergedCommitSHA branch portType labels newBranch (h @ [e])))"

text \<open>Lines 61 to 65: fetch origin.\<close>

definition portPR_fetch ::
  "services \<Rightarrow> prInformation \<Rightarrow> PullRequest \<Rightarrow> string \<Rightarrow> string \<Rightarrow> string \<Rightarrow> string list \<Rightarrow> string
     \<Rightarrow> event list \<Rightarrow> int outcome \<times> event list" where
  "portPR_fetch svc prInfo pr mergedCommitSHA branch portType labels newBranch h =
     (let r = srv_execCmd svc h localPath ''git'' [''fetch'', ''origin''];
          e = execCmd localPath ''git'' [''fetch'', ''origin''] r
      in case r of
           Some err \<Rightarrow>
             (Fail (Wrapf err (''Failed to fetch origin on repository '' @ repoOwner prInfo @ ''/''
                      @ repoName prInfo @ '' to backport Pull Request '' @ Itoa (num prInfo))), [e])
         | None \<Rightarrow>
             emit e (portPR_checkout svc prInfo pr mergedCommitSHA branch portType labels newBranch (h @ [e])))"

text \<open>Lines 55 to 59: clone; an error is returned only when its message does not
  contain \<open>already exists and is not an empty directory\<close>.\<close>

definition cloneArgs :: "prInformation \<Rightarrow> string list" where
  "cloneArgs prInfo =
     [''clone'', ''git@github.com:'' @ repoOwner prInfo @ ''/'' @ repoName prInfo @ ''.git'', ''/tmp/vitess'']"

definition portPR_clone ::
  "services \<Rightarrow> prInformation \<Rightarrow> PullRequest \<Rightarrow> string \<Rightarrow> string \<Rightarrow> string \<Rightarrow> string list \<Rightarrow> string
     \<Rightarrow> event list \<Rightarrow> int outcome \<times> event list" where
  "portPR_clone svc prInfo pr mergedCommitSHA branch portType labels newBranch h =
     (let r = srv_execCmd svc h '''' ''git'' (cloneArgs prInfo);
          e = execCmd '''' ''git'' (cloneArgs prInfo) r
      in case r of
           Some err \<Rightarrow>
             if \<not> Contains err ''already exists and is not an empty directory'' then
               (Fail (Wrapf err (''Failed to clone repository '' @ repoOwner prInfo @ ''/'' @ repoName prInfo
                        @ '' to backport Pull Request '' @ Itoa (num prInfo))), [e])
             else emit e (portPR_fetch svc prInfo pr mergedCommitSHA branch portType labels newBranch (h @ [e]))
         | None \<Rightarrow>
             emit e (portPR_fetch svc prInfo pr mergedCommitSHA branch portType labels newBranch (h @ [e])))"

text \<open>
  Lines 36 to 53: look the target branch up, create the working branch from it. The
  expression \<open>releaseRef.GetObject().SHA\<close> reads a field through the pointer that
  \<open>GetObject\<close> returns, which is nil when the reference has no object: a nil
  dereference, the one panic of \<open>portPR\<close>.
\<close>

definition newBranchName :: "string \<Rightarrow> int \<Rightarrow> string \<Rightarrow> string" where
  "newBranchName portType n branch = portType @ ''-'' @ Itoa n @ ''-to-'' @ branch"

definition portPR ::
  "services \<Rightarrow> prInformation \<Rightarrow> PullRequest \<Rightarrow> string \<Rightarrow> string \<Rightarrow> string \<Rightarrow> string list
     \<Rightarrow> event list \<Rightarrow> int outcome \<times> event list" where
  "portPR svc prInfo pr mergedCommitSHA branch portType labels h =
     (let r = srv_GetRef svc h (repoOwner prInfo) (repoName prInfo) (''heads/'' @ branch);
          e = Git_GetRef (repoOwner prInfo) (repoName prInfo) (''heads/'' @ branch) r
      in case r of
           Inl err \<Rightarrow> (Fail (Wrapf err ''''), [e])
         | Inr releaseRef \<Rightarrow>
             (let newBranch = newBranchName portType (GetNumber pr) branch in
              case Object releaseRef of
                None \<Rightarrow> (Panic, [e])
              | Some obj \<Rightarrow>
                  (let newRef = \<lparr>Ref = Some (''refs/heads/'' @ newBranch), Object = Some \<lparr>SHA = SHA obj\<rparr>\<rparr>;
                       r2 = srv_CreateRef svc (h @ [e]) (repoOwner prInfo) (repoName prInfo) newRef;
                       e2 = Git_CreateRef (repoOwner prInfo) (repoName prInfo) newRef r2
                   in case r2 of
                        Some err \<Rightarrow>
                          (Fail (Wrapf err (''Failed to create git ref '' @ newBranch @ '' on repository ''
                                   @ repoOwner prInfo @ ''/'' @ repoName prInfo
                                   @ '' to backport Pull Request '' @ Itoa (num prInfo))), [e, e2])
                      | None \<Rightarrow>
                          emit e (emit e2
                            (portPR_clone svc prInfo pr mergedCommitSHA branch portType labels newBranch
                               (h @ [e, e2]))))))"

section \<open>backportPR\<close>

text \<open>
  Lines 425 to 438: one loop per port type. The number that \<open>portPR\<close> returns is dropped;
  an error is logged with its own message and the loop goes on with the next branch.
  A loop returns nothing: its result is \<open>Some ()\<close>, or \<open>None\<close> when a panic has unwound it.
\<close>

fun portLoop ::
  "services \<Rightarrow> prInformation \<Rightarrow> PullRequest \<Rightarrow> string \<Rightarrow> string \<Rightarrow> string list \<Rightarrow> string list
     \<Rightarrow> event list \<Rightarrow> unit option \<times> event list" where
  "portLoop svc prInfo pr mergedCommitSHA portType labels [] h = (Some (), [])"
| "portLoop svc prInfo pr mergedCommitSHA portType labels (branch # rest) h =
     (case portPR svc prInfo pr mergedCommitSHA branch portType labels h of
        (Panic, es) \<Rightarrow> (None, es)
      | (Fail err, es) \<Rightarrow>
          (case portLoop svc prInfo pr mergedCommitSHA portType labels rest (h @ es @ [logger_Err err err]) of
             (res, es2) \<Rightarrow> (res, es @ [logger_Err err err] @ es2))
      | (Done n, es) \<Rightarrow>
          (case portLoop svc prInfo pr mergedCommitSHA portType labels rest (h @ es) of
             (res, es2) \<Rightarrow> (res, es @ es2)))"

text \<open>
  \<open>backportPR\<close> (lines 389 to 441) returns an \<open>error\<close>: \<open>Fail err\<close> when the client cannot
  be made, \<open>Done ()\<close> for nil. \<open>newClient\<close> is what \<open>h.NewInstallationClient\<close> returns: the
  client through which the forge is reached, or an error.
\<close>

definition backportPR ::
  "(error + services) \<Rightarrow> prInformation \<Rightarrow> event list \<Rightarrow> unit outcome \<times> event list" where
  "backportPR newClient prInfo h =
     (case newClient of
        Inl err \<Rightarrow> (Fail err, [])
      | Inr svc \<Rightarrow>
          (let r = srv_Get svc h (repoOwner prInfo) (repoName prInfo) (num prInfo);
               e = PullRequests_Get (repoOwner prInfo) (repoName prInfo) (num prInfo) r
           in case r of
                Inl err \<Rightarrow>
                  (Done (),
                   [e, logger_Err err (''Failed to get Pull Request '' @ repoOwner prInfo @ ''/''
                                        @ repoName prInfo @ ''#'' @ Itoa (num prInfo))])
              | Inr pr \<Rightarrow>
                  (case planLabels (Labels pr) emptyPlan of
                     None \<Rightarrow> (Panic, [e])
                   | Some p \<Rightarrow>
                       (case portLoop svc prInfo pr (GetMergeCommitSHA pr) backport (otherLabels p)
                               (backportBranches p) (h @ [e]) of
                          (None, es) \<Rightarrow> (Panic, e # es)
                        | (Some u, es) \<Rightarrow>
                            (case portLoop svc prInfo pr (GetMergeCommitSHA pr) forwardport (otherLabels p)
                                    (forwardportBranches p) (h @ [e] @ es) of
                               (None, es2) \<Rightarrow> (Panic, e # es @ es2)
                             | (Some u2, es2) \<Rightarrow> (Done (), e # es @ es2))))))"

section \<open>The orchestrator as the specification words it\<close>

text \<open>
  Section 4.3 of the specification: the executor is invoked once per backport branch and
  once per forward-port branch, the same logic with the port type as its parameter; one
  branch's error is logged and does not prevent the processing of the remaining
  branches. \<open>RunAll_spec\<close> is this description as a function, to be compared with the two
  loops of \<open>backportPR\<close>. An attempt records the port type and the branch, what
  \<open>portPR\<close> returned for them, and the events of the attempt: those of \<open>portPR\<close>,
  followed by the log entry when it returned an error. The next attempt starts from the
  history extended by these events, whatever the attempt returned.
\<close>

record attempt =
  att_portType :: string
  att_branch :: string
  att_result :: "int outcome"
  att_events :: "event list"

text \<open>The work that a plan asks for: its backport branches, then its forward-port branches.\<close>

definition portJobs :: "plan \<Rightarrow> (string \<times> string) list" where
  "portJobs p = map (Pair backport) (backportBranches p) @ map (Pair forwardport) (forwardportBranches p)"

fun RunAll_spec ::
  "services \<Rightarrow> prInformation \<Rightarrow> PullRequest \<Rightarrow> string \<Rightarrow> string list \<Rightarrow> (string \<times> string) list
     \<Rightarrow> event list \<Rightarrow> attempt list" where
  "RunAll_spec svc prInfo pr sha labels [] h = []"
| "RunAll_spec svc prInfo pr sha labels ((portType, branch) # rest) h =
     (let run = portPR svc prInfo pr sha branch portType labels h;
          evs = snd run @ (case fst run of Fail err \<Rightarrow> [logger_Err err err] | _ \<Rightarrow> [])
      in \<lparr>att_portType = portType, att_branch = branch, att_result = fst run, att_events = evs\<rparr>
           # RunAll_spec svc prInfo pr sha labels rest (h @ evs))"

text \<open>
  A panic is not an error that a caller sees: it unwinds the loop and the handler. The
  attempts that take place are those up to and including the first that panics.
\<close>

fun throughPanic :: "attempt list \<Rightarrow> attempt list" where
  "throughPanic [] = []"
| "throughPanic (a # rest) = (if att_result a = Panic then [a] else a # throughPanic rest)"

definition panicked :: "attempt list \<Rightarrow> bool" where
  "panicked atts = list_ex (\<lambda>a. att_result a = Panic) atts"

section \<open>Reading a trace\<close>

text \<open>The targets of the reference lookups of a trace, in order: \<open>portPR\<close> starts with one.\<close>

fun lookupOf :: "event \<Rightarrow> string option" where
  "lookupOf (Git_GetRef ow rp ref r) = Some ref"
| "lookupOf e = None"

definition refLookups :: "event list \<Rightarrow> string list" where
  "refLookups es = List.map_filter lookupOf es"

fun isComment :: "event \<Rightarrow> bool" where
  "isComment (Issues_CreateComment ow rp n body r) = True"
| "isComment e = False"

fun isReviewRequest :: "event \<Rightarrow> bool" where
  "isReviewRequest (PullRequests_RequestReviewers ow rp n reviewers r) = True"
| "isReviewRequest e = False"

text \<open>
  The error with which \<open>portPR\<close> returns when one of the four calls after the creation
  of the pull request fails (lines 131, 152, 158 and 173); \<open>None\<close> for every other event.
\<close>

fun failureAfterCreate :: "event \<Rightarrow> error option" where
  "failureAfterCreate (Issues_AddLabelsToIssue ow rp n ls (Some err)) =
     Some (Wrapf err (''Failed to assign labels to Pull Request '' @ Itoa n))"
| "failureAfterCreate (Issues_CreateComment ow rp n body (Some err)) =
     Some (Wrapf err (''Failed to comment conflict notice on Pull Request '' @ Itoa n))"
| "failureAfterCreate (PullRequests_ListReviewers ow rp n (Inl err)) =
     Some (Wrapf err (''Failed to get the list of reviewers on Pull Request '' @ Itoa n))"
| "failureAfterCreate (PullRequests_RequestReviewers ow rp n reviewers (Some err)) =
     Some (Wrapf err '''')"
| "failureAfterCreate e = None"

section \<open>Example worlds\<close>

text \<open>
  A world for the examples: the branch \<open>release-99\<close> does not exist, every other call to
  the forge succeeds but the label call, which answers \<open>labelsResult\<close>; the git command
  line answers \<open>git args\<close>. The pull request is number 100 of the specification's
  scenario, with a nil label among its labels.
\<close>

definition examplePR :: PullRequest where
  "examplePR =
     \<lparr>Number = Some 100, Title = Some ''Fix the planner'', PR_User = Some \<lparr>Login = Some ''bob''\<rparr>,
      Labels = [Some \<lparr>Label_Name = Some ''Backport to: release-99''\<rparr>,
                Some \<lparr>Label_Name = Some ''Needs doc''\<rparr>,
                None,
                Some \<lparr>Label_Name = Some ''Forwardport to: main''\<rparr>],
      MergeCommitSHA = Some ''deadbeef''\<rparr>"

definition exampleInfo :: prInformation where
  "exampleInfo = \<lparr>num = 100, repoOwner = ''vitessio'', repoName = ''vitess'', merged = True\<rparr>"

definition exampleWorld :: "(string list \<Rightarrow> error option) \<Rightarrow> error option \<Rightarrow> services" where
  "exampleWorld git labelsResult =
     \<lparr>srv_GetRef = (\<lambda>h ow rp ref.
        if ref = ''heads/release-99'' then Inl ''404 Not Found''
        else Inr \<lparr>Ref = Some (''refs/'' @ ref), Object = Some \<lparr>SHA = Some ''0a1b2c''\<rparr>\<rparr>),
      srv_CreateRef = (\<lambda>h ow rp ref. None),
      srv_execCmd = (\<lambda>h dir name args. git args),
      srv_Create = (\<lambda>h ow rp npr.
        Inr \<lparr>Number = Some 7, Title = Some (NPR_Title npr), PR_User = None, Labels = [],
             MergeCommitSHA = None\<rparr>),
      srv_AddLabelsToIssue = (\<lambda>h ow rp n ls. labelsResult),
      srv_CreateComment = (\<lambda>h ow rp n body. None),
      srv_ListReviewers = (\<lambda>h ow rp n.
        Inr \<lparr>Users = [Some \<lparr>Login = Some ''alice''\<rparr>], Teams = [Some \<lparr>Team_Name = Some ''core''\<rparr>]\<rparr>),
      srv_RequestReviewers = (\<lambda>h ow rp n reviewers. None),
      srv_Get = (\<lambda>h ow rp n. Inr examplePR)\<rparr>"

definition cleanGit :: "string list \<Rightarrow> error option" where
  "cleanGit args = None"

definition conflictGit :: "string list \<Rightarrow> error option" where
  "conflictGit args =
     (if take 1 args = [''cherry-pick''] then Some ''after resolving the conflicts, mark them'' else None)"

definition cloneGit :: "error \<Rightarrow> string list \<Rightarrow> error option" where
  "cloneGit err args = (if take 1 args = [''clone''] then Some err else None)"

section \<open>The paths of portPR\<close>

text \<open>
  Each step either returns an error with the events so far, or goes on. The lemmas below
  list, step by step, the results and the traces that the function can produce.
\<close>

lemma fst_emit [simp]: "fst (emit e p) = fst p"
  by (simp add: emit_def)

lemma snd_emit [simp]: "snd (emit e p) = e # snd p"
  by (simp add: emit_def)

lemma emit_eq: "emit e p = (res, es) \<longleftrightarrow> (\<exists>es'. p = (res, es') \<and> es = e # es')"
  by (cases p) (auto simp: emit_def)

lemma portPR_reviewers_cases:
  assumes "portPR_reviewers svc prInfo n author h = (res, es)"
  obtains
    (listFail) err where
      "es = [PullRequests_ListReviewers (repoOwner prInfo) (repoName prInfo) (num prInfo) (Inl err)]"
      "res = Fail (Wrapf err (''Failed to get the list of reviewers on Pull Request '' @ Itoa (num prInfo)))"
  | (requestFail) rv err where
      "es = [PullRequests_ListReviewers (repoOwner prInfo) (repoName prInfo) (num prInfo) (Inr rv),
             PullRequests_RequestReviewers (repoOwner prInfo) (repoName prInfo) n
               (map GetLogin (Users rv) @ map Team_GetName (Teams rv) @ [author]) (Some err)]"
      "res = Fail (Wrapf err '''')"
  | (requested) rv where
      "es = [PullRequests_ListReviewers (repoOwner prInfo) (repoName prInfo) (num prInfo) (Inr rv),
             PullRequests_RequestReviewers (repoOwner prInfo) (repoName prInfo) n
               (map GetLogin (Users rv) @ map Team_GetName (Teams rv) @ [author]) None]"
      "res = Done n"
  using assms unfolding portPR_reviewers_def Let_def
  by (auto split: sum.splits option.splits)

lemma portPR_comment_cases:
  assumes "portPR_comment svc prInfo pr sha branch portType c n h = (res, es)"
  obtains
    (commentFail) err where "c"
      "es = [Issues_CreateComment (repoOwner prInfo) (repoName prInfo) n
               (conflictCommentBody (GetLogin (PR_User pr)) portType prInfo n branch sha) (Some err)]"
      "res = Fail (Wrapf err (''Failed to comment conflict notice on Pull Request '' @ Itoa n))"
  | (commented) h' es' where
      "es = (if c then [Issues_CreateComment (repoOwner prInfo) (repoName prInfo) n
               (conflictCommentBody (GetLogin (PR_User pr)) portType prInfo n branch sha) None] else []) @ es'"
      "portPR_reviewers svc prInfo n (GetLogin (PR_User pr)) h' = (res, es')"
  using assms unfolding portPR_comment_def Let_def
  by (auto split: sum.splits option.splits if_splits simp: emit_eq)

lemma portPR_push_cases:
  assumes "portPR_push svc prInfo pr sha branch portType labels newBranch c h = (res, es)"
  obtains
    (pushFail) err where
      "es = [execCmd localPath ''git'' [''push'', ''origin'', newBranch] (Some err)]"
      "res = Fail (Wrapf err (''Failed to push '' @ newBranch @ '' to backport Pull Request %!s(int=''
                                 @ Itoa (num prInfo) @ '')''))"
  | (createFail) err where
      "es = [execCmd localPath ''git'' [''push'', ''origin'', newBranch] None,
             PullRequests_Create (repoOwner prInfo) (repoName prInfo) (newPR pr branch portType newBranch c) (Inl err)]"
      "res = Fail (Wrapf err '''')"
  | (labelsFail) created err where
      "es = [execCmd localPath ''git'' [''push'', ''origin'', newBranch] None,
             PullRequests_Create (repoOwner prInfo) (repoName prInfo) (newPR pr branch portType newBranch c) (Inr created),
             Issues_AddLabelsToIssue (repoOwner prInfo) (repoName prInfo) (GetNumber created)
               (labelsToAdd labels c portType) (Some err)]"
      "res = Fail (Wrapf err (''Failed to assign labels to Pull Request '' @ Itoa (GetNumber created)))"
  | (labelled) created h' es' where
      "es = [execCmd localPath ''git'' [''push'', ''origin'', newBranch] None,
             PullRequests_Create (repoOwner prInfo) (repoName prInfo) (newPR pr branch portType newBranch c) (Inr created),
             Issues_AddLabelsToIssue (repoOwner prInfo) (repoName prInfo) (GetNumber created)
               (labelsToAdd labels c portType) None] @ es'"
      "portPR_comment svc prInfo pr sha branch portType c (GetNumber created) h' = (res, es')"
  using assms unfolding portPR_push_def portPR_create_def portPR_labels_def Let_def
  by (auto split: sum.splits option.splits if_splits simp: emit_eq)

lemma portPR_push_paths:
  assumes "portPR_push svc prInfo pr sha branch portType labels newBranch c h = (res, es)"
  obtains
    (pushFail) err where
      "es = [execCmd localPath ''git'' [''push'', ''origin'', newBranch] (Some err)]"
      "res = Fail (Wrapf err (''Failed to push '' @ newBranch @ '' to backport Pull Request %!s(int=''
                                 @ Itoa (num prInfo) @ '')''))"
  | (createFail) err where
      "es = [execCmd localPath ''git'' [''push'', ''origin'', newBranch] None,
             PullRequests_Create (repoOwner prInfo) (repoName prInfo) (newPR pr branch portType newBranch c) (Inl err)]"
      "res = Fail (Wrapf err '''')"
  | (labelsFail) created err where
      "es = [execCmd localPath ''git'' [''push'', ''origin'', newBranch] None,
             PullRequests_Create (repoOwner prInfo) (repoName prInfo) (newPR pr branch portType newBranch c) (Inr created),
             Issues_AddLabelsToIssue (repoOwner prInfo) (repoName prInfo) (GetNumber created)
               (labelsToAdd labels c portType) (Some err)]"
      "res = Fail (Wrapf err (''Failed to assign labels to Pull Request '' @ Itoa (GetNumber created)))"
  | (commentFail) created err where "c"
      "es = [execCmd localPath ''git'' [''push'', ''origin'', newBranch] None,
             PullRequests_Create (repoOwner prInfo) (repoName prInfo) (newPR pr branch portType newBranch c) (Inr created),
             Issues_AddLabelsToIssue (repoOwner prInfo) (repoName prInfo) (GetNumber created)
               (labelsToAdd labels c portType) None,
             Issues_CreateComment (repoOwner prInfo) (repoName prInfo) (GetNumber created)
               (conflictCommentBody (GetLogin (PR_User pr)) portType prInfo (GetNumber created) branch sha)
               (Some err)]"
      "res = Fail (Wrapf err (''Failed to comment conflict notice on Pull Request '' @ Itoa (GetNumber created)))"
  | (listFail) created err where
      "es = [execCmd localPath ''git'' [''push'', ''origin'', newBranch] None,
             PullRequests_Create (repoOwner prInfo) (repoName prInfo) (newPR pr branch portType newBranch c) (Inr created),
             Issues_AddLabelsToIssue (repoOwner prInfo) (repoName prInfo) (GetNumber created)
               (labelsToAdd labels c portType) None]
            @ (if c then [Issues_CreateComment (repoOwner prInfo) (repoName prInfo) (GetNumber created)
                 (conflictCommentBody (GetLogin (PR_User pr)) portType prInfo (GetNumber created) branch sha)
                 None] else [])
            @ [PullRequests_ListReviewers (repoOwner prInfo) (repoName prInfo) (num prInfo) (Inl err)]"
      "res = Fail (Wrapf err (''Failed to get the list of reviewers on Pull Request '' @ Itoa (num prInfo)))"
  | (requestFail) created rv err where
      "es = [execCmd localPath ''git'' [''push'', ''origin'', newBranch] None,
             PullRequests_Create (repoOwner prInfo) (repoName prInfo) (newPR pr branch portType newBranch c) (Inr created),
             Issues_AddLabelsToIssue (repoOwner prInfo) (repoName prInfo) (GetNumber created)
               (labelsToAdd labels c portType) None]
            @ (if c then [Issues_CreateComment (repoOwner prInfo) (repoName prInfo) (GetNumber created)
                 (conflictCommentBody (GetLogin (PR_User pr)) portType prInfo (GetNumber created) branch sha)
                 None] else [])
            @ [PullRequests_ListReviewers (repoOwner prInfo) (repoName prInfo) (num prInfo) (Inr rv),
               PullRequests_RequestReviewers (repoOwner prInfo) (repoName prInfo) (GetNumber created)
                 (map GetLogin (Users rv) @ map Team_GetName (Teams rv) @ [GetLogin (PR_User pr)]) (Some err)]"
      "res = Fail (Wrapf err '''')"
  | (ported) created rv where
      "es = [execCmd localPath ''git'' [''push'', ''origin'', newBranch] None,
             PullRequests_Create (repoOwner prInfo) (repoName prInfo) (newPR pr branch portType newBranch c) (Inr created),
             Issues_AddLabelsToIssue (repoOwner prInfo) (repoName prInfo) (GetNumber created)
               (labelsToAdd labels c portType) None]
            @ (if c then [Issues_CreateComment (repoOwner prInfo) (repoName prInfo) (GetNumber created)
                 (conflictCommentBody (GetLogin (PR_User pr)) portType prInfo (GetNumber created) branch sha)
                 None] else [])
            @ [PullRequests_ListReviewers (repoOwner prInfo) (repoName prInfo) (num prInfo) (Inr rv),
               PullRequests_RequestReviewers (repoOwner prInfo) (repoName prInfo) (GetNumber created)
                 (map GetLogin (Users rv) @ map Team_GetName (Teams rv) @ [GetLogin (PR_User pr)]) None]"
      "res = Done (GetNumber created)"
  using assms
proof (cases rule: portPR_push_cases)
  case (labelled created h' es')
  from labelled(2) show ?thesis
  proof (cases rule: portPR_comment_cases)
    case (commentFail err)
    with labelled(1) show ?thesis by (intro that(4) [of created err]) simp_all
  next
    case (commented h'' es'')
    from commented(2) show ?thesis
    proof (cases rule: portPR_reviewers_cases)
      case (listFail err)
      with labelled(1) commented(1) show ?thesis by (intro that(5) [of created err]) simp_all
    next
      case (requestFail rv err)
      with labelled(1) commented(1) show ?thesis by (intro that(6) [of created rv err]) simp_all
    next
      case (requested rv)
      with labelled(1) commented(1) show ?thesis by (intro that(7) [of created rv]) simp_all
    qed
  qed
qed (blast intro: that)+


lemma cherryPick_cases:
  assumes "cherryPick svc prInfo sha newBranch h = (res, es)"
  obtains
    (pickFail) err where "\<not> Contains err ''conflicts''"
      "es = [execCmd localPath ''git'' [''cherry-pick'', ''-m'', ''1'', sha] (Some err)]"
      "res = Fail (Wrapf err (''Failed to cherry-pick '' @ sha @ '' to branch '' @ newBranch
                        @ '' to backport Pull Request '' @ Itoa (num prInfo)))"
  | (addFail) err err2 where "Contains err ''conflicts''"
      "es = [execCmd localPath ''git'' [''cherry-pick'', ''-m'', ''1'', sha] (Some err),
             execCmd localPath ''git'' [''add'', ''.''] (Some err2)]"
      "res = Fail (Wrapf err2 (''Failed to do 'git add' on branch '' @ newBranch
                                @ '' to backport Pull Request '' @ Itoa (num prInfo)))"
  | (commitFail) err err3 where "Contains err ''conflicts''"
      "es = [execCmd localPath ''git'' [''cherry-pick'', ''-m'', ''1'', sha] (Some err),
             execCmd localPath ''git'' [''add'', ''.''] None,
             execCmd localPath ''git'' [''commit'', botAuthor, ''-m'', ''Cherry-pick '' @ sha @ '' with conflicts'']
               (Some err3)]"
      "res = Fail (Wrapf err3 (''Failed to do 'git commit' on branch '' @ newBranch
                                        @ '' to backport Pull Request '' @ Itoa (num prInfo)))"
  | (amendFail) err2 where
      "es = [execCmd localPath ''git'' [''cherry-pick'', ''-m'', ''1'', sha] None,
             execCmd localPath ''git'' [''commit'', ''--amend'', botAuthor, ''--no-edit''] (Some err2)]"
      "res = Fail (Wrapf err2 (''Failed to do 'git commit --amend' on branch '' @ newBranch
                              @ '' to backport Pull Request '' @ Itoa (num prInfo)))"
  | (conflicted) err where "Contains err ''conflicts''"
      "es = [execCmd localPath ''git'' [''cherry-pick'', ''-m'', ''1'', sha] (Some err),
             execCmd localPath ''git'' [''add'', ''.''] None,
             execCmd localPath ''git'' [''commit'', botAuthor, ''-m'', ''Cherry-pick '' @ sha @ '' with conflicts'']
               None]"
      "res = Done True"
  | (clean)
      "es = [execCmd localPath ''git'' [''cherry-pick'', ''-m'', ''1'', sha] None,
             execCmd localPath ''git'' [''commit'', ''--amend'', botAuthor, ''--no-edit''] None]"
      "res = Done False"
proof (cases "srv_execCmd svc h localPath ''git'' [''cherry-pick'', ''-m'', ''1'', sha]")
  case None
  note pick = this
  let ?e = "execCmd localPath ''git'' [''cherry-pick'', ''-m'', ''1'', sha] None"
  show ?thesis
  proof (cases "srv_execCmd svc (h @ [?e]) localPath ''git'' [''commit'', ''--amend'', botAuthor, ''--no-edit'']")
    case None
    with pick assms show ?thesis
      by (intro clean) (simp_all add: cherryPick_def)
  next
    case (Some err2)
    with pick assms show ?thesis
      by (intro amendFail [of err2]) (simp_all add: cherryPick_def)
  qed
next
  case (Some err)
  note pick = this
  let ?e = "execCmd localPath ''git'' [''cherry-pick'', ''-m'', ''1'', sha] (Some err)"
  show ?thesis
  proof (cases "Contains err ''conflicts''")
    case False
    with pick assms show ?thesis
      by (intro pickFail [of err]) (simp_all add: cherryPick_def)
  next
    case True
    note conf = this
    show ?thesis
    proof (cases "srv_execCmd svc (h @ [?e]) localPath ''git'' [''add'', ''.'']")
      case (Some err2)
      with pick conf assms show ?thesis
        by (intro addFail [of err err2]) (simp_all add: cherryPick_def)
    next
      case None
      note add = this
      let ?e2 = "execCmd localPath ''git'' [''add'', ''.''] None"
      show ?thesis
      proof (cases "srv_execCmd svc (h @ [?e, ?e2]) localPath ''git''
                      [''commit'', botAuthor, ''-m'', ''Cherry-pick '' @ sha @ '' with conflicts'']")
        case None
        with pick conf add assms show ?thesis
          by (intro conflicted [of err]) (simp_all add: cherryPick_def)
      next
        case (Some err3)
        with pick conf add assms show ?thesis
          by (intro commitFail [of err err3]) (simp_all add: cherryPick_def)
      qed
    qed
  qed
qed

lemma portPR_cherryPick_cases:
  assumes "portPR_cherryPick svc prInfo pr sha branch portType labels newBranch h = (res, es)"
  obtains
    (pickFail) err where "\<not> Contains err ''conflicts''"
      "es = [execCmd localPath ''git'' [''cherry-pick'', ''-m'', ''1'', sha] (Some err)]"
      "res = Fail (Wrapf err (''Failed to cherry-pick '' @ sha @ '' to branch '' @ newBranch
                        @ '' to backport Pull Request '' @ Itoa (num prInfo)))"
  | (addFail) err err2 where "Contains err ''conflicts''"
      "es = [execCmd localPath ''git'' [''cherry-pick'', ''-m'', ''1'', sha] (Some err),
             execCmd localPath ''git'' [''add'', ''.''] (Some err2)]"
      "res = Fail (Wrapf err2 (''Failed to do 'git add' on branch '' @ newBranch
                                @ '' to backport Pull Request '' @ Itoa (num prInfo)))"
  | (commitFail) err err3 where "Contains err ''conflicts''"
      "es = [execCmd localPath ''git'' [''cherry-pick'', ''-m'', ''1'', sha] (Some err),
             execCmd localPath ''git'' [''add'', ''.''] None,
             execCmd localPath ''git'' [''commit'', botAuthor, ''-m'', ''Cherry-pick '' @ sha @ '' with conflicts'']
               (Some err3)]"
      "res = Fail (Wrapf err3 (''Failed to do 'git commit' on branch '' @ newBranch
                                        @ '' to backport Pull Request '' @ Itoa (num prInfo)))"
  | (amendFail) err2 where
      "es = [execCmd localPath ''git'' [''cherry-pick'', ''-m'', ''1'', sha] None,
             execCmd localPath ''git'' [''commit'', ''--amend'', botAuthor, ''--no-edit''] (Some err2)]"
      "res = Fail (Wrapf err2 (''Failed to do 'git commit --amend' on branch '' @ newBranch
                              @ '' to backport Pull Request '' @ Itoa (num prInfo)))"
  | (conflicted) err h' es' where "Contains err ''conflicts''"
      "fst (cherryPick svc prInfo sha newBranch h) = Done True"
      "es = [execCmd localPath ''git'' [''cherry-pick'', ''-m'', ''1'', sha] (Some err),
             execCmd localPath ''git'' [''add'', ''.''] None,
             execCmd localPath ''git'' [''commit'', botAuthor, ''-m'', ''Cherry-pick '' @ sha @ '' with conflicts'']
               None] @ es'"
      "portPR_push svc prInfo pr sha branch portType labels newBranch True h' = (res, es')"
  | (clean) h' es' where
      "fst (cherryPick svc prInfo sha newBranch h) = Done False"
      "es = [execCmd localPath ''git'' [''cherry-pick'', ''-m'', ''1'', sha] None,
             execCmd localPath ''git'' [''commit'', ''--amend'', botAuthor, ''--no-edit''] None] @ es'"
      "portPR_push svc prInfo pr sha branch portType labels newBranch False h' = (res, es')"
proof -
  obtain r0 es0 where cp: "cherryPick svc prInfo sha newBranch h = (r0, es0)"
    by (cases "cherryPick svc prInfo sha newBranch h")
  from cp show ?thesis
  proof (cases rule: cherryPick_cases)
    case (pickFail err)
    with cp assms show ?thesis by (intro that(1) [of err]) (simp_all add: portPR_cherryPick_def)
  next
    case (addFail err err2)
    with cp assms show ?thesis by (intro that(2) [of err err2]) (simp_all add: portPR_cherryPick_def)
  next
    case (commitFail err err3)
    with cp assms show ?thesis by (intro that(3) [of err err3]) (simp_all add: portPR_cherryPick_def)
  next
    case (amendFail err2)
    with cp assms show ?thesis by (intro that(4) [of err2]) (simp_all add: portPR_cherryPick_def)
  next
    case (conflicted err)
    obtain es' where tail: "portPR_push svc prInfo pr sha branch portType labels newBranch True (h @ es0) = (res, es')"
      and es: "es = es0 @ es'"
      using cp assms conflicted(3) by (auto simp: portPR_cherryPick_def split: prod.splits)
    from conflicted cp tail es show ?thesis
      by (intro that(5) [of err es' "h @ es0"]) simp_all
  next
    case clean
    obtain es' where tail: "portPR_push svc prInfo pr sha branch portType labels newBranch False (h @ es0) = (res, es')"
      and es: "es = es0 @ es'"
      using cp assms clean(2) by (auto simp: portPR_cherryPick_def split: prod.splits)
    from clean cp tail es show ?thesis
      by (intro that(6) [of es' "h @ es0"]) simp_all
  qed
qed

lemma portPR_clone_cases:
  assumes "portPR_clone svc prInfo pr sha branch portType labels newBranch h = (res, es)"
  obtains
    (cloneFail) err where "\<not> Contains err ''already exists and is not an empty directory''"
      "es = [execCmd '''' ''git'' (cloneArgs prInfo) (Some err)]"
      "res = Fail (Wrapf err (''Failed to clone repository '' @ repoOwner prInfo @ ''/'' @ repoName prInfo
                        @ '' to backport Pull Request '' @ Itoa (num prInfo)))"
  | (fetchFail) rc err where "\<forall>e. rc = Some e \<longrightarrow> Contains e ''already exists and is not an empty directory''"
      "es = [execCmd '''' ''git'' (cloneArgs prInfo) rc,
             execCmd localPath ''git'' [''fetch'', ''origin''] (Some err)]"
      "res = Fail (Wrapf err (''Failed to fetch origin on repository '' @ repoOwner prInfo @ ''/''
                      @ repoName prInfo @ '' to backport Pull Request '' @ Itoa (num prInfo)))"
  | (checkoutFail) rc err where "\<forall>e. rc = Some e \<longrightarrow> Contains e ''already exists and is not an empty directory''"
      "es = [execCmd '''' ''git'' (cloneArgs prInfo) rc,
             execCmd localPath ''git'' [''fetch'', ''origin''] None,
             execCmd localPath ''git'' [''checkout'', newBranch] (Some err)]"
      "res = Fail (Wrapf err (''Failed to checkout repository '' @ repoOwner prInfo @ ''/'' @ repoName prInfo
                      @ '' to branch '' @ newBranch @ '' to backport Pull Request '' @ Itoa (num prInfo)))"
  | (checkedOut) rc h' es' where "\<forall>e. rc = Some e \<longrightarrow> Contains e ''already exists and is not an empty directory''"
      "h' = h @ [execCmd '''' ''git'' (cloneArgs prInfo) rc,
                 execCmd localPath ''git'' [''fetch'', ''origin''] None,
                 execCmd localPath ''git'' [''checkout'', newBranch] None]"
      "es = [execCmd '''' ''git'' (cloneArgs prInfo) rc,
             execCmd localPath ''git'' [''fetch'', ''origin''] None,
             execCmd localPath ''git'' [''checkout'', newBranch] None] @ es'"
      "portPR_cherryPick svc prInfo pr sha branch portType labels newBranch h' = (res, es')"
proof -
  let ?rc = "srv_execCmd svc h '''' ''git'' (cloneArgs prInfo)"
  let ?e = "execCmd '''' ''git'' (cloneArgs prInfo) ?rc"
  show ?thesis
  proof (cases "\<forall>e. ?rc = Some e \<longrightarrow> Contains e ''already exists and is not an empty directory''")
    case False
    then obtain err where "?rc = Some err" "\<not> Contains err ''already exists and is not an empty directory''"
      by blast
    with assms show ?thesis
      by (intro that(1) [of err]) (simp_all add: portPR_clone_def Let_def)
  next
    case True
    then have fetch: "emit ?e (portPR_fetch svc prInfo pr sha branch portType labels newBranch (h @ [?e])) = (res, es)"
      using assms by (auto simp: portPR_clone_def Let_def split: option.splits)
    let ?rf = "srv_execCmd svc (h @ [?e]) localPath ''git'' [''fetch'', ''origin'']"
    let ?ef = "execCmd localPath ''git'' [''fetch'', ''origin''] ?rf"
    show ?thesis
    proof (cases ?rf)
      case (Some err)
      with fetch True show ?thesis
        by (intro that(2) [of ?rc err]) (auto simp: portPR_fetch_def emit_eq Let_def)
    next
      case None
      note rf = this
      let ?rk = "srv_execCmd svc (h @ [?e, ?ef]) localPath ''git'' [''checkout'', newBranch]"
      show ?thesis
      proof (cases ?rk)
        case (Some err)
        with fetch True rf show ?thesis
          by (intro that(3) [of ?rc err]) (auto simp: portPR_fetch_def portPR_checkout_def emit_eq Let_def)
      next
        case None
        with fetch True rf obtain es' where
          "portPR_cherryPick svc prInfo pr sha branch portType labels newBranch (h @ [?e, ?ef,
             execCmd localPath ''git'' [''checkout'', newBranch] None]) = (res, es')"
          "es = [?e, ?ef, execCmd localPath ''git'' [''checkout'', newBranch] None] @ es'"
          by (auto simp: portPR_fetch_def portPR_checkout_def emit_eq Let_def)
        with True rf show ?thesis
          by (intro that(4) [of ?rc _ es']) simp_all
      qed
    qed
  qed
qed

lemma portPR_cases:
  assumes "portPR svc prInfo pr sha branch portType labels h = (res, es)"
  obtains
    (lookupFail) err where
      "es = [Git_GetRef (repoOwner prInfo) (repoName prInfo) (''heads/'' @ branch) (Inl err)]"
      "res = Fail (Wrapf err '''')"
  | (noObject) releaseRef where "Object releaseRef = None"
      "es = [Git_GetRef (repoOwner prInfo) (repoName prInfo) (''heads/'' @ branch) (Inr releaseRef)]"
      "res = Panic"
  | (createRefFail) releaseRef obj err where "Object releaseRef = Some obj"
      "es = [Git_GetRef (repoOwner prInfo) (repoName prInfo) (''heads/'' @ branch) (Inr releaseRef),
             Git_CreateRef (repoOwner prInfo) (repoName prInfo)
               \<lparr>Ref = Some (''refs/heads/'' @ newBranchName portType (GetNumber pr) branch),
                Object = Some \<lparr>SHA = SHA obj\<rparr>\<rparr> (Some err)]"
      "res = Fail (Wrapf err (''Failed to create git ref '' @ newBranchName portType (GetNumber pr) branch
                                   @ '' on repository '' @ repoOwner prInfo @ ''/'' @ repoName prInfo
                                   @ '' to backport Pull Request '' @ Itoa (num prInfo)))"
  | (refCreated) releaseRef obj h' es' where "Object releaseRef = Some obj"
      "h' = h @ [Git_GetRef (repoOwner prInfo) (repoName prInfo) (''heads/'' @ branch) (Inr releaseRef),
             Git_CreateRef (repoOwner prInfo) (repoName prInfo)
               \<lparr>Ref = Some (''refs/heads/'' @ newBranchName portType (GetNumber pr) branch),
                Object = Some \<lparr>SHA = SHA obj\<rparr>\<rparr> None]"
      "es = [Git_GetRef (repoOwner prInfo) (repoName prInfo) (''heads/'' @ branch) (Inr releaseRef),
             Git_CreateRef (repoOwner prInfo) (repoName prInfo)
               \<lparr>Ref = Some (''refs/heads/'' @ newBranchName portType (GetNumber pr) branch),
                Object = Some \<lparr>SHA = SHA obj\<rparr>\<rparr> None] @ es'"
      "portPR_clone svc prInfo pr sha branch portType labels (newBranchName portType (GetNumber pr) branch) h'
         = (res, es')"
proof (cases "srv_GetRef svc h (repoOwner prInfo) (repoName prInfo) (''heads/'' @ branch)")
  case (Inl err)
  with assms show ?thesis
    by (intro that(1) [of err]) (simp_all add: portPR_def Let_def)
next
  case (Inr releaseRef)
  note look = this
  show ?thesis
  proof (cases "Object releaseRef")
    case None
    with look assms show ?thesis
      by (intro that(2) [of releaseRef]) (simp_all add: portPR_def Let_def)
  next
    case (Some obj)
    note obj = this
    let ?e = "Git_GetRef (repoOwner prInfo) (repoName prInfo) (''heads/'' @ branch) (Inr releaseRef)"
    let ?newRef = "\<lparr>Ref = Some (''refs/heads/'' @ newBranchName portType (GetNumber pr) branch),
                Object = Some \<lparr>SHA = SHA obj\<rparr>\<rparr>"
    show ?thesis
    proof (cases "srv_CreateRef svc (h @ [?e]) (repoOwner prInfo) (repoName prInfo) ?newRef")
      case (Some err)
      with look obj assms show ?thesis
        by (intro that(3) [of releaseRef obj err]) (simp_all add: portPR_def Let_def)
    next
      case None
      with look obj assms obtain es' where
        "portPR_clone svc prInfo pr sha branch portType labels (newBranchName portType (GetNumber pr) branch)
           (h @ [?e, Git_CreateRef (repoOwner prInfo) (repoName prInfo) ?newRef None]) = (res, es')"
        "es = [?e, Git_CreateRef (repoOwner prInfo) (repoName prInfo) ?newRef None] @ es'"
        by (auto simp: portPR_def emit_eq Let_def)
      with obj show ?thesis
        by (intro that(4) [of releaseRef obj _ es']) simp_all
    qed
  qed
qed

section \<open>Facts about the strings\<close>

lemma HasPrefix_append: "HasPrefix (s @ b) s"
  by (simp add: HasPrefix_def)

lemma Index_of_prefix: "HasPrefix t s \<Longrightarrow> Index t s = Some 0"
  by (cases t) (auto simp: HasPrefix_def)

lemma Contains_mid: "Contains (a @ s @ b) s"
proof (induction a)
  case Nil
  show ?case by (simp add: Contains_def Index_of_prefix HasPrefix_append)
next
  case (Cons c a)
  then show ?case by (auto simp: Contains_def)
qed

lemma body_has_sha: "Contains (conflictCommentBody author portType prInfo n branch sha) sha"
proof -
  have "\<exists>a b. conflictCommentBody author portType prInfo n branch sha = a @ sha @ b"
    unfolding conflictCommentBody_def
    by (metis append.assoc)
  then show ?thesis by (auto simp: Contains_mid)
qed

lemma body_has_number: "Contains (conflictCommentBody author portType prInfo n branch sha) (Itoa n)"
proof -
  have "\<exists>a b. conflictCommentBody author portType prInfo n branch sha = a @ Itoa n @ b"
    unfolding conflictCommentBody_def
    by (metis append.assoc)
  then show ?thesis by (auto simp: Contains_mid)
qed

lemma labelsToAdd_conflict:
  "''Merge Conflict'' \<in> set (labelsToAdd labels True portType)"
  "''Skip CI'' \<in> set (labelsToAdd labels True portType)"
  by (simp_all add: labelsToAdd_def Let_def)

section \<open>Evaluating the examples\<close>

lemmas portPR_steps =
  portPR_def portPR_clone_def portPR_fetch_def portPR_checkout_def portPR_cherryPick_def cherryPick_def
  portPR_push_def portPR_create_def portPR_labels_def portPR_comment_def portPR_reviewers_def
  emit_def Let_def cloneArgs_def localPath_def

lemmas example_defs =
  exampleWorld_def exampleInfo_def examplePR_def cleanGit_def conflictGit_def cloneGit_def
  GetNumber_def GetLogin_def Team_GetName_def GetTitle_def Contains_def HasPrefix_def

section \<open>Facts about the labels, the lookups and the planning loop\<close>

lemma labelsToAdd_clean:
  "''Merge Conflict'' \<in> set (labelsToAdd labels False portType) \<longleftrightarrow> ''Merge Conflict'' \<in> set labels"
  "''Skip CI'' \<in> set (labelsToAdd labels False portType) \<longleftrightarrow> ''Skip CI'' \<in> set labels"
  by (auto simp: labelsToAdd_def Let_def)

lemma refLookups_append: "refLookups (a @ b) = refLookups a @ refLookups b"
  by (simp add: refLookups_def map_filter_def)

lemma refLookups_portPR:
  "refLookups (snd (portPR svc prInfo pr sha branch portType labels h)) = [''heads/'' @ branch]"
proof -
  obtain res es where run: "portPR svc prInfo pr sha branch portType labels h = (res, es)"
    by (cases "portPR svc prInfo pr sha branch portType labels h")
  from run have "refLookups es = [''heads/'' @ branch]"
    apply (elim portPR_cases portPR_clone_cases portPR_cherryPick_cases portPR_push_paths)
    apply (simp_all add: refLookups_def map_filter_simps)
    done
  with run show ?thesis by simp
qed

lemma portLoop_lookups:
  "fst (portLoop svc prInfo pr sha portType labels branches h) = Some () \<Longrightarrow>
   refLookups (snd (portLoop svc prInfo pr sha portType labels branches h))
     = map (\<lambda>b. ''heads/'' @ b) branches"
proof (induction branches arbitrary: h)
  case Nil
  show ?case by (simp add: refLookups_def map_filter_simps)
next
  case (Cons b rest)
  obtain res es where run: "portPR svc prInfo pr sha b portType labels h = (res, es)"
    by (cases "portPR svc prInfo pr sha b portType labels h")
  from refLookups_portPR [of svc prInfo pr sha b portType labels h] run
  have first: "refLookups es = [''heads/'' @ b]" by simp
  show ?case
  proof (cases res)
    case Panic
    with run Cons.prems show ?thesis by simp
  next
    case (Fail err)
    let ?h = "h @ es @ [logger_Err err err]"
    obtain r2 es2 where rest: "portLoop svc prInfo pr sha portType labels rest ?h = (r2, es2)"
      by (cases "portLoop svc prInfo pr sha portType labels rest ?h")
    with Fail run Cons.prems have "fst (portLoop svc prInfo pr sha portType labels rest ?h) = Some ()"
      by simp
    from Cons.IH [OF this] rest have "refLookups es2 = map (\<lambda>b. ''heads/'' @ b) rest"
      by simp
    moreover have "refLookups (es @ [logger_Err err err] @ es2) = refLookups es @ refLookups es2"
      by (simp add: refLookups_def map_filter_def)
    ultimately show ?thesis
      using Fail run rest first by simp
  next
    case (Done n)
    obtain r2 es2 where rest: "portLoop svc prInfo pr sha portType labels rest (h @ es) = (r2, es2)"
      by (cases "portLoop svc prInfo pr sha portType labels rest (h @ es)")
    with Done run Cons.prems have "fst (portLoop svc prInfo pr sha portType labels rest (h @ es)) = Some ()"
      by simp
    from Cons.IH [OF this] rest have "refLookups es2 = map (\<lambda>b. ''heads/'' @ b) rest"
      by simp
    then show ?thesis
      using Done run rest first by (simp add: refLookups_append)
  qed
qed

lemma genSplit_nonempty: "sep \<noteq> [] \<Longrightarrow> genSplit s sep \<noteq> []"
  by (subst genSplit.simps) (simp split: option.splits)

lemma Split_of_prefix:
  assumes "sep \<noteq> []" and "HasPrefix s sep"
  shows "Split s sep = [] # genSplit (drop (length sep) s) sep"
proof -
  from assms(2) have "Index s sep = Some 0" by (rule Index_of_prefix)
  with assms(1) show ?thesis
    unfolding Split_def by (subst genSplit.simps) simp
qed

lemma index1_Split:
  assumes "sep \<noteq> []" and "HasPrefix s sep"
  shows "index1 (Split s sep) = Some (hd (genSplit (drop (length sep) s) sep))"
proof -
  from genSplit_nonempty [OF assms(1)] obtain x xs where "genSplit (drop (length sep) s) sep = x # xs"
    by (cases "genSplit (drop (length sep) s) sep") auto
  with Split_of_prefix [OF assms] show ?thesis by (simp add: index1_def)
qed

lemma planLabels_total: "planLabels labels p \<noteq> None"
proof (induction labels p rule: planLabels.induct)
  case (1 p)
  show ?case by simp
next
  case (2 rest p)
  then show ?case by simp
next
  case (3 l rest p)
  show ?case
  proof (cases "HasPrefix (Label_GetName (Some l)) backportLabelPrefix")
    case True
    with index1_Split [of backportLabelPrefix "Label_GetName (Some l)"]
    have i: "index1 (Split (Label_GetName (Some l)) backportLabelPrefix)
            = Some (hd (genSplit (drop (length backportLabelPrefix) (Label_GetName (Some l))) backportLabelPrefix))"
      by (simp add: backportLabelPrefix_def)
    with True 3(1) [OF True i] show ?thesis by simp
  next
    case False
    note nb = this
    show ?thesis
    proof (cases "HasPrefix (Label_GetName (Some l)) forwardportLabelPrefix")
      case True
      with index1_Split [of forwardportLabelPrefix "Label_GetName (Some l)"]
      have i: "index1 (Split (Label_GetName (Some l)) forwardportLabelPrefix)
            = Some (hd (genSplit (drop (length forwardportLabelPrefix) (Label_GetName (Some l))) forwardportLabelPrefix))"
        by (simp add: forwardportLabelPrefix_def)
      with nb True 3(2) [OF nb True i] show ?thesis by simp
    next
      case False
      with nb 3(3) [OF nb False] show ?thesis by simp
    qed
  qed
qed

lemma index1_Split_nth:
  assumes "sep \<noteq> []" and "HasPrefix s sep"
  shows "index1 (Split s sep) = Some (Split s sep ! 1)"
  using index1_Split [OF assms] by (simp add: index1_def split: if_splits)

lemma prefixes_exclusive: "\<not> (HasPrefix n backportLabelPrefix \<and> HasPrefix n forwardportLabelPrefix)"
  by (cases n) (auto simp: HasPrefix_def backportLabelPrefix_def forwardportLabelPrefix_def)

lemma planLabels_from:
  "planLabels labels p =
     Some \<lparr>backportBranches = backportBranches p
              @ map (\<lambda>n. Split n backportLabelPrefix ! 1)
                  (filter (\<lambda>n. HasPrefix n backportLabelPrefix) (labelNames labels)),
           forwardportBranches = forwardportBranches p
              @ map (\<lambda>n. Split n forwardportLabelPrefix ! 1)
                  (filter (\<lambda>n. HasPrefix n forwardportLabelPrefix) (labelNames labels)),
           otherLabels = otherLabels p
              @ filter (\<lambda>n. \<not> HasPrefix n backportLabelPrefix \<and> \<not> HasPrefix n forwardportLabelPrefix)
                  (labelNames labels)\<rparr>"
proof (induction labels p rule: planLabels.induct)
  case (1 p)
  show ?case by (simp add: labelNames_def)
next
  case (2 rest p)
  then show ?case by (simp add: labelNames_def)
next
  case (3 l rest p)
  let ?n = "Label_GetName (Some l)"
  have names: "labelNames (Some l # rest) = ?n # labelNames rest"
    by (simp add: labelNames_def)
  show ?case
  proof (cases "HasPrefix ?n backportLabelPrefix")
    case True
    then have i: "index1 (Split ?n backportLabelPrefix) = Some (Split ?n backportLabelPrefix ! 1)"
      by (intro index1_Split_nth) (simp_all add: backportLabelPrefix_def)
    from True prefixes_exclusive [of ?n] have nf: "\<not> HasPrefix ?n forwardportLabelPrefix"
      by simp
    from 3(1) [OF True i] True i nf show ?thesis
      by (simp add: names)
  next
    case False
    note nb = this
    show ?thesis
    proof (cases "HasPrefix ?n forwardportLabelPrefix")
      case True
      then have i: "index1 (Split ?n forwardportLabelPrefix) = Some (Split ?n forwardportLabelPrefix ! 1)"
        by (intro index1_Split_nth) (simp_all add: forwardportLabelPrefix_def)
      from 3(2) [OF nb True i] nb True i show ?thesis
        by (simp add: names)
    next
      case False
      from 3(3) [OF nb False] nb False show ?thesis
        by (simp add: names)
    qed
  qed
qed

text \<open>
  What the planning loop computes, for every label list: the names with the backport
  prefix give the backport branches, those with the forward-port prefix the forward-port
  branches, all others are carried over. No name has both prefixes, and the match is
  exact: \<open>Backports to: x\<close> is carried over.
\<close>

lemma planLabels_partition:
  "planLabels labels emptyPlan =
     Some \<lparr>backportBranches =
             map (\<lambda>n. Split n backportLabelPrefix ! 1)
               (filter (\<lambda>n. HasPrefix n backportLabelPrefix) (labelNames labels)),
           forwardportBranches =
             map (\<lambda>n. Split n forwardportLabelPrefix ! 1)
               (filter (\<lambda>n. HasPrefix n forwardportLabelPrefix) (labelNames labels)),
           otherLabels =
             filter (\<lambda>n. \<not> HasPrefix n backportLabelPrefix \<and> \<not> HasPrefix n forwardportLabelPrefix)
               (labelNames labels)\<rparr>
   \<and> (\<forall>n. \<not> (HasPrefix n backportLabelPrefix \<and> HasPrefix n forwardportLabelPrefix))
   \<and> \<not> HasPrefix ''Backports to: x'' backportLabelPrefix
   \<and> planLabels [Some \<lparr>Label_Name = Some ''Backports to: x''\<rparr>] emptyPlan
       = Some \<lparr>backportBranches = [], forwardportBranches = [], otherLabels = [''Backports to: x'']\<rparr>"
proof -
  have "\<not> HasPrefix ''Backports to: x'' backportLabelPrefix"
    by (simp add: HasPrefix_def backportLabelPrefix_def)
  moreover have "planLabels [Some \<lparr>Label_Name = Some ''Backports to: x''\<rparr>] emptyPlan
       = Some \<lparr>backportBranches = [], forwardportBranches = [], otherLabels = [''Backports to: x'']\<rparr>"
    by (simp add: emptyPlan_def Label_GetName_def HasPrefix_def backportLabelPrefix_def
          forwardportLabelPrefix_def)
  ultimately show ?thesis
    using planLabels_from [of labels emptyPlan] prefixes_exclusive
    by (simp add: emptyPlan_def)
qed

lemma Split_suffix:
  assumes "sep \<noteq> []" and "HasPrefix s sep" and "\<not> Contains (drop (length sep) s) sep"
  shows "Split s sep ! 1 = drop (length sep) s"
proof -
  from assms(3) have "Index (drop (length sep) s) sep = None"
    by (simp add: Contains_def)
  with assms(1) have "genSplit (drop (length sep) s) sep = [drop (length sep) s]"
    by (subst genSplit.simps) simp
  with Split_of_prefix [OF assms(1,2)] show ?thesis by simp
qed

text \<open>
  The branch of a port label is its suffix whenever the prefix does not occur again in
  the suffix.
\<close>

lemma planLabels_suffix:
  assumes "\<forall>n\<in>set (labelNames labels).
             (HasPrefix n backportLabelPrefix \<longrightarrow>
                \<not> Contains (drop (length backportLabelPrefix) n) backportLabelPrefix)
           \<and> (HasPrefix n forwardportLabelPrefix \<longrightarrow>
                \<not> Contains (drop (length forwardportLabelPrefix) n) forwardportLabelPrefix)"
  shows "planLabels labels emptyPlan =
     Some \<lparr>backportBranches =
             map (drop (length backportLabelPrefix))
               (filter (\<lambda>n. HasPrefix n backportLabelPrefix) (labelNames labels)),
           forwardportBranches =
             map (drop (length forwardportLabelPrefix))
               (filter (\<lambda>n. HasPrefix n forwardportLabelPrefix) (labelNames labels)),
           otherLabels =
             filter (\<lambda>n. \<not> HasPrefix n backportLabelPrefix \<and> \<not> HasPrefix n forwardportLabelPrefix)
               (labelNames labels)\<rparr>"
proof -
  have b: "map (\<lambda>n. Split n backportLabelPrefix ! 1)
             (filter (\<lambda>n. HasPrefix n backportLabelPrefix) (labelNames labels))
         = map (drop (length backportLabelPrefix))
             (filter (\<lambda>n. HasPrefix n backportLabelPrefix) (labelNames labels))"
    using assms by (intro map_cong refl Split_suffix) (auto simp: backportLabelPrefix_def)
  have f: "map (\<lambda>n. Split n forwardportLabelPrefix ! 1)
             (filter (\<lambda>n. HasPrefix n forwardportLabelPrefix) (labelNames labels))
         = map (drop (length forwardportLabelPrefix))
             (filter (\<lambda>n. HasPrefix n forwardportLabelPrefix) (labelNames labels))"
    using assms by (intro map_cong refl Split_suffix) (auto simp: forwardportLabelPrefix_def)
  from planLabels_from [of labels emptyPlan] b f show ?thesis
    by (simp add: emptyPlan_def)
qed

lemma planLabels_suffix_example:
  "labelNames (Labels examplePR) = [''Backport to: release-99'', ''Needs doc'', ''Forwardport to: main'']
   \<and> planLabels (Labels examplePR) emptyPlan =
       Some \<lparr>backportBranches = [''release-99''], forwardportBranches = [''main''],
             otherLabels = [''Needs doc'']\<rparr>"
proof -
  have names: "labelNames (Labels examplePR) = [''Backport to: release-99'', ''Needs doc'', ''Forwardport to: main'']"
    by (simp add: labelNames_def examplePR_def Label_GetName_def)
  have ok: "\<forall>n\<in>set (labelNames (Labels examplePR)).
             (HasPrefix n backportLabelPrefix \<longrightarrow>
                \<not> Contains (drop (length backportLabelPrefix) n) backportLabelPrefix)
           \<and> (HasPrefix n forwardportLabelPrefix \<longrightarrow>
                \<not> Contains (drop (length forwardportLabelPrefix) n) forwardportLabelPrefix)"
    unfolding names
    by (simp add: Contains_def HasPrefix_def backportLabelPrefix_def forwardportLabelPrefix_def)
  from planLabels_suffix [OF ok] names show ?thesis
    by (simp add: HasPrefix_def backportLabelPrefix_def forwardportLabelPrefix_def)
qed

section \<open>Facts about a conflicting port and about the two loops\<close>

lemma labelsToAdd_eq:
  "labelsToAdd labels c portType =
     labels @ (if c then [''Merge Conflict'', ''Skip CI''] else [])
       @ (if portType = backport then [''Backport'']
          else if portType = forwardport then [''Forwardport''] else [])"
  by (simp add: labelsToAdd_def Let_def)

lemma conflicting_port_events:
  assumes run: "portPR svc prInfo pr sha branch portType labels h = (res, es)"
    and cp: "execCmd localPath ''git'' [''cherry-pick'', ''-m'', ''1'', sha] (Some err) \<in> set es"
    and conflict: "Contains err ''conflicts''"
  shows "(\<forall>args r. execCmd localPath ''git'' (''commit'' # args) r \<in> set es \<longrightarrow>
            args = [botAuthor, ''-m'', ''Cherry-pick '' @ sha @ '' with conflicts''])
       \<and> (execCmd localPath ''git'' [''commit'', botAuthor, ''-m'', ''Cherry-pick '' @ sha @ '' with conflicts'']
            None \<in> set es \<longrightarrow>
          fst (cherryPick svc prInfo sha (newBranchName portType (GetNumber pr) branch) (h @ take 5 es))
            = Done True)
       \<and> (\<forall>ow rp npr r. PullRequests_Create ow rp npr r \<in> set es \<longrightarrow> Draft npr)
       \<and> (\<forall>ow rp n ls r. Issues_AddLabelsToIssue ow rp n ls r \<in> set es \<longrightarrow>
            ''Merge Conflict'' \<in> set ls \<and> ''Skip CI'' \<in> set ls)
       \<and> (\<forall>ow rp n body r. Issues_CreateComment ow rp n body r \<in> set es \<longrightarrow>
            Contains body sha \<and> Contains body (Itoa n))
       \<and> (\<forall>n. res = Done n \<longrightarrow>
            execCmd localPath ''git'' [''commit'', botAuthor, ''-m'', ''Cherry-pick '' @ sha @ '' with conflicts'']
              None \<in> set es
          \<and> (\<exists>npr created. PullRequests_Create (repoOwner prInfo) (repoName prInfo) npr (Inr created) \<in> set es
                \<and> Draft npr \<and> GetNumber created = n)
          \<and> (\<exists>ls. Issues_AddLabelsToIssue (repoOwner prInfo) (repoName prInfo) n ls None \<in> set es
                \<and> ''Merge Conflict'' \<in> set ls \<and> ''Skip CI'' \<in> set ls)
          \<and> (\<exists>body. filter isComment es = [Issues_CreateComment (repoOwner prInfo) (repoName prInfo) n body None]
                \<and> Contains body sha \<and> Contains body (Itoa n)))"
  using run cp conflict
  apply (elim portPR_cases portPR_clone_cases portPR_cherryPick_cases portPR_push_paths)
  apply (simp_all add: newPR_def localPath_def cloneArgs_def body_has_sha body_has_number labelsToAdd_conflict)
  done

lemma conflicting_port_steps:
  assumes run: "portPR svc prInfo pr sha branch portType labels h = (res, es)"
    and cp: "execCmd localPath ''git'' [''cherry-pick'', ''-m'', ''1'', sha] (Some err) \<in> set es"
    and conflict: "Contains err ''conflicts''"
  shows "(\<exists>r. take 2 (drop 5 es) =
              [execCmd localPath ''git'' [''cherry-pick'', ''-m'', ''1'', sha] (Some err),
               execCmd localPath ''git'' [''add'', ''.''] r])
       \<and> (execCmd localPath ''git'' [''add'', ''.''] None \<in> set es \<longrightarrow>
            (\<exists>r. take 3 (drop 5 es) =
               [execCmd localPath ''git'' [''cherry-pick'', ''-m'', ''1'', sha] (Some err),
                execCmd localPath ''git'' [''add'', ''.''] None,
                execCmd localPath ''git''
                  [''commit'', botAuthor, ''-m'', ''Cherry-pick '' @ sha @ '' with conflicts''] r]))
       \<and> (\<forall>args r. execCmd localPath ''git'' (''commit'' # args) r \<in> set es \<longrightarrow>
            take 3 (drop 5 es) =
               [execCmd localPath ''git'' [''cherry-pick'', ''-m'', ''1'', sha] (Some err),
                execCmd localPath ''git'' [''add'', ''.''] None,
                execCmd localPath ''git''
                  [''commit'', botAuthor, ''-m'', ''Cherry-pick '' @ sha @ '' with conflicts''] r])
       \<and> (execCmd localPath ''git'' [''commit'', botAuthor, ''-m'', ''Cherry-pick '' @ sha @ '' with conflicts'']
            None \<in> set es \<longrightarrow>
            (\<exists>r. take 1 (drop 8 es) =
               [execCmd localPath ''git''
                  [''push'', ''origin'', portType @ ''-'' @ Itoa (GetNumber pr) @ ''-to-'' @ branch] r]))
       \<and> (\<forall>args. execCmd localPath ''git'' (''push'' # args) None \<in> set es \<longrightarrow>
            (\<exists>r. take 1 (drop 9 es) =
               [PullRequests_Create (repoOwner prInfo) (repoName prInfo)
                  (newPR pr branch portType (portType @ ''-'' @ Itoa (GetNumber pr) @ ''-to-'' @ branch) True) r]))
       \<and> (\<forall>ow rp npr created. PullRequests_Create ow rp npr (Inr created) \<in> set es \<longrightarrow>
            (\<exists>r. take 1 (drop 10 es) =
               [Issues_AddLabelsToIssue (repoOwner prInfo) (repoName prInfo) (GetNumber created)
                  (labels @ [''Merge Conflict'', ''Skip CI'']
                     @ (if portType = backport then [''Backport'']
                        else if portType = forwardport then [''Forwardport''] else [])) r]))
       \<and> (\<forall>ow rp n ls. Issues_AddLabelsToIssue ow rp n ls None \<in> set es \<longrightarrow>
            (\<exists>r. take 1 (drop 11 es) =
               [Issues_CreateComment (repoOwner prInfo) (repoName prInfo) n
                  (conflictCommentBody (GetLogin (PR_User pr)) portType prInfo n branch sha) r]))
       \<and> (\<forall>n. res = Done n \<longrightarrow>
            (\<exists>created rv. GetNumber created = n
               \<and> drop 5 es =
                 [execCmd localPath ''git'' [''cherry-pick'', ''-m'', ''1'', sha] (Some err),
                  execCmd localPath ''git'' [''add'', ''.''] None,
                  execCmd localPath ''git''
                    [''commit'', botAuthor, ''-m'', ''Cherry-pick '' @ sha @ '' with conflicts''] None,
                  execCmd localPath ''git''
                    [''push'', ''origin'', portType @ ''-'' @ Itoa (GetNumber pr) @ ''-to-'' @ branch] None,
                  PullRequests_Create (repoOwner prInfo) (repoName prInfo)
                    (newPR pr branch portType (portType @ ''-'' @ Itoa (GetNumber pr) @ ''-to-'' @ branch) True)
                    (Inr created),
                  Issues_AddLabelsToIssue (repoOwner prInfo) (repoName prInfo) n
                    (labels @ [''Merge Conflict'', ''Skip CI'']
                       @ (if portType = backport then [''Backport'']
                          else if portType = forwardport then [''Forwardport''] else [])) None,
                  Issues_CreateComment (repoOwner prInfo) (repoName prInfo) n
                    (conflictCommentBody (GetLogin (PR_User pr)) portType prInfo n branch sha) None,
                  PullRequests_ListReviewers (repoOwner prInfo) (repoName prInfo) (num prInfo) (Inr rv),
                  PullRequests_RequestReviewers (repoOwner prInfo) (repoName prInfo) n
                    (map GetLogin (Users rv) @ map Team_GetName (Teams rv) @ [GetLogin (PR_User pr)]) None]))"
  using run cp conflict
  apply (elim portPR_cases portPR_clone_cases portPR_cherryPick_cases portPR_push_paths)
  apply (simp_all add: localPath_def cloneArgs_def newBranchName_def labelsToAdd_eq)
  done

lemma backportPR_lookups:
  assumes run: "backportPR (Inr svc) prInfo h = (Done (), es)"
    and got: "srv_Get svc h (repoOwner prInfo) (repoName prInfo) (num prInfo) = Inr pr"
  shows "\<exists>p. planLabels (Labels pr) emptyPlan = Some p
           \<and> refLookups es = map (\<lambda>b. ''heads/'' @ b) (backportBranches p @ forwardportBranches p)"
proof -
  from run got obtain p where plan: "planLabels (Labels pr) emptyPlan = Some p"
    by (auto simp: backportPR_def Let_def split: option.splits)
  let ?e = "PullRequests_Get (repoOwner prInfo) (repoName prInfo) (num prInfo) (Inr pr)"
  obtain r1 es1 where l1: "portLoop svc prInfo pr (GetMergeCommitSHA pr) backport (otherLabels p)
      (backportBranches p) (h @ [?e]) = (r1, es1)"
    by (cases "portLoop svc prInfo pr (GetMergeCommitSHA pr) backport (otherLabels p)
      (backportBranches p) (h @ [?e])")
  from run got plan l1 have r1: "r1 = Some ()"
    by (auto simp: backportPR_def Let_def split: option.splits)
  obtain r2 es2 where l2: "portLoop svc prInfo pr (GetMergeCommitSHA pr) forwardport (otherLabels p)
      (forwardportBranches p) (h @ [?e] @ es1) = (r2, es2)"
    by (cases "portLoop svc prInfo pr (GetMergeCommitSHA pr) forwardport (otherLabels p)
      (forwardportBranches p) (h @ [?e] @ es1)")
  from run got plan l1 r1 l2 have r2: "r2 = Some ()" and es: "es = ?e # es1 @ es2"
    by (auto simp: backportPR_def Let_def split: option.splits)
  from portLoop_lookups [of svc prInfo pr "GetMergeCommitSHA pr" backport "otherLabels p"
      "backportBranches p" "h @ [?e]"] l1 r1
  have k1: "refLookups es1 = map (\<lambda>b. ''heads/'' @ b) (backportBranches p)" by simp
  from portLoop_lookups [of svc prInfo pr "GetMergeCommitSHA pr" forwardport "otherLabels p"
      "forwardportBranches p" "h @ [?e] @ es1"] l2 r2
  have k2: "refLookups es2 = map (\<lambda>b. ''heads/'' @ b) (forwardportBranches p)" by simp
  have "refLookups es = refLookups [?e] @ refLookups es1 @ refLookups es2"
    unfolding es by (simp add: refLookups_append [symmetric])
  with k1 k2 plan show ?thesis
    by (simp add: refLookups_def map_filter_simps)
qed

lemma RunAll_spec_jobs:
  "map (\<lambda>a. (att_portType a, att_branch a)) (RunAll_spec svc prInfo pr sha labels jobs h) = jobs"
  by (induction jobs arbitrary: h) (auto simp: Let_def)

lemma RunAll_spec_append:
  "RunAll_spec svc prInfo pr sha labels (js1 @ js2) h =
     RunAll_spec svc prInfo pr sha labels js1 h
     @ RunAll_spec svc prInfo pr sha labels js2
         (h @ concat (map att_events (RunAll_spec svc prInfo pr sha labels js1 h)))"
  by (induction js1 arbitrary: h) (auto simp: Let_def)

lemma RunAll_spec_nth:
  "i < length jobs \<Longrightarrow>
   RunAll_spec svc prInfo pr sha labels jobs h ! i =
     (let run = portPR svc prInfo pr sha (snd (jobs ! i)) (fst (jobs ! i)) labels
                  (h @ concat (map att_events (take i (RunAll_spec svc prInfo pr sha labels jobs h))))
      in \<lparr>att_portType = fst (jobs ! i), att_branch = snd (jobs ! i), att_result = fst run,
          att_events = snd run @ (case fst run of Fail err \<Rightarrow> [logger_Err err err] | _ \<Rightarrow> [])\<rparr>)"
proof (induction jobs arbitrary: i h)
  case Nil
  then show ?case by simp
next
  case (Cons j rest)
  obtain portType branch where j: "j = (portType, branch)" by (cases j)
  show ?case
  proof (cases i)
    case 0
    with j show ?thesis by (simp add: Let_def)
  next
    case (Suc k)
    with Cons.prems have "k < length rest" by simp
    from Cons.IH [OF this] Suc j show ?thesis by (simp add: Let_def)
  qed
qed

lemma throughPanic_append:
  "throughPanic (a @ b) = (if panicked a then throughPanic a else a @ throughPanic b)"
  by (induction a) (auto simp: panicked_def)

lemma throughPanic_id: "\<not> panicked a \<Longrightarrow> throughPanic a = a"
  by (induction a) (auto simp: panicked_def)

lemma panicked_append: "panicked (a @ b) \<longleftrightarrow> panicked a \<or> panicked b"
  by (simp add: panicked_def)

lemma portLoop_RunAll:
  "portLoop svc prInfo pr sha portType labels branches h =
     (if panicked (RunAll_spec svc prInfo pr sha labels (map (Pair portType) branches) h) then None else Some (),
      concat (map att_events
        (throughPanic (RunAll_spec svc prInfo pr sha labels (map (Pair portType) branches) h))))"
proof (induction branches arbitrary: h)
  case Nil
  show ?case by (simp add: panicked_def)
next
  case (Cons b rest)
  obtain res es where run: "portPR svc prInfo pr sha b portType labels h = (res, es)"
    by (cases "portPR svc prInfo pr sha b portType labels h")
  show ?case
  proof (cases res)
    case Panic
    with run show ?thesis by (simp add: panicked_def Let_def)
  next
    case (Fail err)
    with run Cons.IH [of "h @ es @ [logger_Err err err]"] show ?thesis
      by (simp add: panicked_def Let_def)
  next
    case (Done n)
    with run Cons.IH [of "h @ es"] show ?thesis
      by (simp add: panicked_def Let_def)
  qed
qed

lemma throughPanic_take:
  "k < length atts \<Longrightarrow> (\<forall>i<k. att_result (atts ! i) \<noteq> Panic) \<Longrightarrow>
   take (Suc k) (throughPanic atts) = take (Suc k) atts"
proof (induction atts arbitrary: k)
  case Nil
  then show ?case by simp
next
  case (Cons a rest)
  show ?case
  proof (cases k)
    case 0
    then show ?thesis by simp
  next
    case (Suc j)
    with Cons.prems have j: "j < length rest" and first: "att_result a \<noteq> Panic"
      and others: "\<forall>i<j. att_result (rest ! i) \<noteq> Panic"
      by auto
    from Cons.IH [OF j others] first Suc show ?thesis by simp
  qed
qed

lemma attempt_in_trace:
  assumes "k < length atts" and "\<forall>i<k. att_result (atts ! i) \<noteq> Panic"
  shows "\<exists>post. concat (map att_events (throughPanic atts))
           = concat (map att_events (take k atts)) @ att_events (atts ! k) @ post"
proof -
  let ?tp = "throughPanic atts"
  have "concat (map att_events ?tp)
        = concat (map att_events (take (Suc k) ?tp)) @ concat (map att_events (drop (Suc k) ?tp))"
    by (metis append_take_drop_id concat_append map_append)
  also have "take (Suc k) ?tp = take k atts @ [atts ! k]"
    using throughPanic_take [OF assms] assms(1) by (simp add: take_Suc_conv_app_nth)
  finally show ?thesis by simp
qed

section \<open>The claims about portPR\<close>

text \<open>
  Claim C2. Take any run of \<open>portPR\<close> in which the cherry-pick of the merged commit
  returned an error whose message contains \<open>conflicts\<close>. The cherry-pick is the sixth
  call of the run, and what follows it is fixed step by step. The next call is
  \<open>git add .\<close>; when it succeeds the next call is the commit with the bot's author
  argument and the message \<open>Cherry-pick {sha} with conflicts\<close>, and every commit of the
  run is this one, directly after the successful \<open>git add .\<close>; when the commit succeeds
  the local variable \<open>conflict\<close> is true and the working branch is pushed; when the push
  succeeds the pull request is created, as a draft; when it is created the labels are
  applied to it, the carried-over labels followed by \<open>Merge Conflict\<close>, \<open>Skip CI\<close> and
  the label of the port type; when they are applied the conflict notice is posted on it.
  Every pull request the run creates is a draft, every label call carries both conflict
  labels, every comment carries the commit's SHA and the number of the pull request it
  is posted on. When the run returns a number, all calls from the cherry-pick on have
  succeeded, and they are exactly: cherry-pick, add, commit, push, the draft pull request
  with that number, its labels, one comment, the list of reviewers and their request.
\<close>

theorem conflicting_port:
  assumes run: "portPR svc prInfo pr sha branch portType labels h = (res, es)"
    and cp: "execCmd localPath ''git'' [''cherry-pick'', ''-m'', ''1'', sha] (Some err) \<in> set es"
    and conflict: "Contains err ''conflicts''"
  shows "((\<exists>r. take 2 (drop 5 es) =
              [execCmd localPath ''git'' [''cherry-pick'', ''-m'', ''1'', sha] (Some err),
               execCmd localPath ''git'' [''add'', ''.''] r])
       \<and> (execCmd localPath ''git'' [''add'', ''.''] None \<in> set es \<longrightarrow>
            (\<exists>r. take 3 (drop 5 es) =
               [execCmd localPath ''git'' [''cherry-pick'', ''-m'', ''1'', sha] (Some err),
                execCmd localPath ''git'' [''add'', ''.''] None,
                execCmd localPath ''git''
                  [''commit'', botAuthor, ''-m'', ''Cherry-pick '' @ sha @ '' with conflicts''] r]))
       \<and> (\<forall>args r. execCmd localPath ''git'' (''commit'' # args) r \<in> set es \<longrightarrow>
            take 3 (drop 5 es) =
               [execCmd localPath ''git'' [''cherry-pick'', ''-m'', ''1'', sha] (Some err),
                execCmd localPath ''git'' [''add'', ''.''] None,
                execCmd localPath ''git''
                  [''commit'', botAuthor, ''-m'', ''Cherry-pick '' @ sha @ '' with conflicts''] r])
       \<and> (execCmd localPath ''git'' [''commit'', botAuthor, ''-m'', ''Cherry-pick '' @ sha @ '' with conflicts'']
            None \<in> set es \<longrightarrow>
            (\<exists>r. take 1 (drop 8 es) =
               [execCmd localPath ''git''
                  [''push'', ''origin'', portType @ ''-'' @ Itoa (GetNumber pr) @ ''-to-'' @ branch] r]))
       \<and> (\<forall>args. execCmd localPath ''git'' (''push'' # args) None \<in> set es \<longrightarrow>
            (\<exists>r. take 1 (drop 9 es) =
               [PullRequests_Create (repoOwner prInfo) (repoName prInfo)
                  (newPR pr branch portType (portType @ ''-'' @ Itoa (GetNumber pr) @ ''-to-'' @ branch) True) r]))
       \<and> (\<forall>ow rp npr created. PullRequests_Create ow rp npr (Inr created) \<in> set es \<longrightarrow>
            (\<exists>r. take 1 (drop 10 es) =
               [Issues_AddLabelsToIssue (repoOwner prInfo) (repoName prInfo) (GetNumber created)
                  (labels @ [''Merge Conflict'', ''Skip CI'']
                     @ (if portType = backport then [''Backport'']
                        else if portType = forwardport then [''Forwardport''] else [])) r]))
       \<and> (\<forall>ow rp n ls. Issues_AddLabelsToIssue ow rp n ls None \<in> set es \<longrightarrow>
            (\<exists>r. take 1 (drop 11 es) =
               [Issues_CreateComment (repoOwner prInfo) (repoName prInfo) n
                  (conflictCommentBody (GetLogin (PR_User pr)) portType prInfo n branch sha) r]))
       \<and> (\<forall>n. res = Done n \<longrightarrow>
            (\<exists>created rv. GetNumber created = n
               \<and> drop 5 es =
                 [execCmd localPath ''git'' [''cherry-pick'', ''-m'', ''1'', sha] (Some err),
                  execCmd localPath ''git'' [''add'', ''.''] None,
                  execCmd localPath ''git''
                    [''commit'', botAuthor, ''-m'', ''Cherry-pick '' @ sha @ '' with conflicts''] None,
                  execCmd localPath ''git''
                    [''push'', ''origin'', portType @ ''-'' @ Itoa (GetNumber pr) @ ''-to-'' @ branch] None,
                  PullRequests_Create (repoOwner prInfo) (repoName prInfo)
                    (newPR pr branch portType (portType @ ''-'' @ Itoa (GetNumber pr) @ ''-to-'' @ branch) True)
                    (Inr created),
                  Issues_AddLabelsToIssue (repoOwner prInfo) (repoName prInfo) n
                    (labels @ [''Merge Conflict'', ''Skip CI'']
                       @ (if portType = backport then [''Backport'']
                          else if portType = forwardport then [''Forwardport''] else [])) None,
                  Issues_CreateComment (repoOwner prInfo) (repoName prInfo) n
                    (conflictCommentBody (GetLogin (PR_User pr)) portType prInfo n branch sha) None,
                  PullRequests_ListReviewers (repoOwner prInfo) (repoName prInfo) (num prInfo) (Inr rv),
                  PullRequests_RequestReviewers (repoOwner prInfo) (repoName prInfo) n
                    (map GetLogin (Users rv) @ map Team_GetName (Teams rv) @ [GetLogin (PR_User pr)]) None])))
       \<and> ((\<forall>args r. execCmd localPath ''git'' (''commit'' # args) r \<in> set es \<longrightarrow>
            args = [botAuthor, ''-m'', ''Cherry-pick '' @ sha @ '' with conflicts''])
       \<and> (execCmd localPath ''git'' [''commit'', botAuthor, ''-m'', ''Cherry-pick '' @ sha @ '' with conflicts'']
            None \<in> set es \<longrightarrow>
          fst (cherryPick svc prInfo sha (newBranchName portType (GetNumber pr) branch) (h @ take 5 es))
            = Done True)
       \<and> (\<forall>ow rp npr r. PullRequests_Create ow rp npr r \<in> set es \<longrightarrow> Draft npr)
       \<and> (\<forall>ow rp n ls r. Issues_AddLabelsToIssue ow rp n ls r \<in> set es \<longrightarrow>
            ''Merge Conflict'' \<in> set ls \<and> ''Skip CI'' \<in> set ls)
       \<and> (\<forall>ow rp n body r. Issues_CreateComment ow rp n body r \<in> set es \<longrightarrow>
            Contains body sha \<and> Contains body (Itoa n))
       \<and> (\<forall>n. res = Done n \<longrightarrow>
            execCmd localPath ''git'' [''commit'', botAuthor, ''-m'', ''Cherry-pick '' @ sha @ '' with conflicts'']
              None \<in> set es
          \<and> (\<exists>npr created. PullRequests_Create (repoOwner prInfo) (repoName prInfo) npr (Inr created) \<in> set es
                \<and> Draft npr \<and> GetNumber created = n)
          \<and> (\<exists>ls. Issues_AddLabelsToIssue (repoOwner prInfo) (repoName prInfo) n ls None \<in> set es
                \<and> ''Merge Conflict'' \<in> set ls \<and> ''Skip CI'' \<in> set ls)
          \<and> (\<exists>body. filter isComment es = [Issues_CreateComment (repoOwner prInfo) (repoName prInfo) n body None]
                \<and> Contains body sha \<and> Contains body (Itoa n))))"
  using conflicting_port_steps [OF run cp conflict] conflicting_port_events [OF run cp conflict]
  by (rule conjI)

text \<open>The theorem at an example.\<close>

theorem conflicting_port_witness:
  "fst (portPR (exampleWorld conflictGit None) exampleInfo examplePR ''deadbeef'' ''release-18'' backport
          [''Needs doc''] []) = Done 7
   \<and> Contains ''after resolving the conflicts, mark them'' ''conflicts''
   \<and> take 3 (drop 5 (snd (portPR (exampleWorld conflictGit None) exampleInfo examplePR ''deadbeef''
                              ''release-18'' backport [''Needs doc''] [])))
       = [execCmd localPath ''git'' [''cherry-pick'', ''-m'', ''1'', ''deadbeef'']
            (Some ''after resolving the conflicts, mark them''),
          execCmd localPath ''git'' [''add'', ''.''] None,
          execCmd localPath ''git'' [''commit'', botAuthor, ''-m'', ''Cherry-pick deadbeef with conflicts''] None]
   \<and> execCmd localPath ''git'' [''commit'', botAuthor, ''-m'', ''Cherry-pick deadbeef with conflicts''] None
       \<in> set (snd (portPR (exampleWorld conflictGit None) exampleInfo examplePR ''deadbeef'' ''release-18''
                      backport [''Needs doc''] []))
   \<and> (\<exists>npr created.
         PullRequests_Create ''vitessio'' ''vitess'' npr (Inr created)
           \<in> set (snd (portPR (exampleWorld conflictGit None) exampleInfo examplePR ''deadbeef'' ''release-18''
                          backport [''Needs doc''] []))
         \<and> Draft npr \<and> GetNumber created = 7)
   \<and> (\<exists>ls. Issues_AddLabelsToIssue ''vitessio'' ''vitess'' 7 ls None
           \<in> set (snd (portPR (exampleWorld conflictGit None) exampleInfo examplePR ''deadbeef'' ''release-18''
                          backport [''Needs doc''] []))
         \<and> ''Merge Conflict'' \<in> set ls \<and> ''Skip CI'' \<in> set ls)
   \<and> (\<exists>body. filter isComment
                 (snd (portPR (exampleWorld conflictGit None) exampleInfo examplePR ''deadbeef'' ''release-18''
                         backport [''Needs doc''] []))
               = [Issues_CreateComment ''vitessio'' ''vitess'' 7 body None]
         \<and> Contains body ''deadbeef'' \<and> Contains body (Itoa 7))"
proof -
  define run where
    "run = portPR (exampleWorld conflictGit None) exampleInfo examplePR ''deadbeef'' ''release-18'' backport
             [''Needs doc''] []"
  have pair: "portPR (exampleWorld conflictGit None) exampleInfo examplePR ''deadbeef'' ''release-18'' backport
             [''Needs doc''] [] = (fst run, snd run)"
    by (simp add: run_def)
  have res: "fst run = Done 7"
    unfolding run_def by (simp add: portPR_steps example_defs)
  have cp: "execCmd localPath ''git'' [''cherry-pick'', ''-m'', ''1'', ''deadbeef'']
              (Some ''after resolving the conflicts, mark them'') \<in> set (snd run)"
    unfolding run_def by (simp add: portPR_steps example_defs)
  have conflict: "Contains ''after resolving the conflicts, mark them'' ''conflicts''"
    by (simp add: Contains_def HasPrefix_def)
  note port = conflicting_port [OF pair cp conflict]
  from port have steps: "\<forall>n. fst run = Done n \<longrightarrow>
            (\<exists>created rv. GetNumber created = n
               \<and> drop 5 (snd run) =
                 [execCmd localPath ''git'' [''cherry-pick'', ''-m'', ''1'', ''deadbeef'']
                    (Some ''after resolving the conflicts, mark them''),
                  execCmd localPath ''git'' [''add'', ''.''] None,
                  execCmd localPath ''git''
                    [''commit'', botAuthor, ''-m'', ''Cherry-pick '' @ ''deadbeef'' @ '' with conflicts''] None,
                  execCmd localPath ''git''
                    [''push'', ''origin'', backport @ ''-'' @ Itoa (GetNumber examplePR) @ ''-to-'' @ ''release-18'']
                    None,
                  PullRequests_Create (repoOwner exampleInfo) (repoName exampleInfo)
                    (newPR examplePR ''release-18'' backport
                       (backport @ ''-'' @ Itoa (GetNumber examplePR) @ ''-to-'' @ ''release-18'') True)
                    (Inr created),
                  Issues_AddLabelsToIssue (repoOwner exampleInfo) (repoName exampleInfo) n
                    ([''Needs doc''] @ [''Merge Conflict'', ''Skip CI'']
                       @ (if backport = backport then [''Backport'']
                          else if backport = forwardport then [''Forwardport''] else [])) None,
                  Issues_CreateComment (repoOwner exampleInfo) (repoName exampleInfo) n
                    (conflictCommentBody (GetLogin (PR_User examplePR)) backport exampleInfo n ''release-18''
                       ''deadbeef'') None,
                  PullRequests_ListReviewers (repoOwner exampleInfo) (repoName exampleInfo) (num exampleInfo)
                    (Inr rv),
                  PullRequests_RequestReviewers (repoOwner exampleInfo) (repoName exampleInfo) n
                    (map GetLogin (Users rv) @ map Team_GetName (Teams rv) @ [GetLogin (PR_User examplePR)])
                    None])"
    by (elim conjE)
  with res have first: "take 3 (drop 5 (snd run))
       = [execCmd localPath ''git'' [''cherry-pick'', ''-m'', ''1'', ''deadbeef'']
            (Some ''after resolving the conflicts, mark them''),
          execCmd localPath ''git'' [''add'', ''.''] None,
          execCmd localPath ''git'' [''commit'', botAuthor, ''-m'', ''Cherry-pick deadbeef with conflicts''] None]"
    by auto
  from port have events: "\<forall>n. fst run = Done n \<longrightarrow>
            execCmd localPath ''git''
              [''commit'', botAuthor, ''-m'', ''Cherry-pick '' @ ''deadbeef'' @ '' with conflicts''] None
              \<in> set (snd run)
          \<and> (\<exists>npr created. PullRequests_Create (repoOwner exampleInfo) (repoName exampleInfo) npr (Inr created)
                  \<in> set (snd run)
                \<and> Draft npr \<and> GetNumber created = n)
          \<and> (\<exists>ls. Issues_AddLabelsToIssue (repoOwner exampleInfo) (repoName exampleInfo) n ls None
                  \<in> set (snd run)
                \<and> ''Merge Conflict'' \<in> set ls \<and> ''Skip CI'' \<in> set ls)
          \<and> (\<exists>body. filter isComment (snd run)
                   = [Issues_CreateComment (repoOwner exampleInfo) (repoName exampleInfo) n body None]
                \<and> Contains body ''deadbeef'' \<and> Contains body (Itoa n))"
    by (elim conjE)
  with res first conflict show ?thesis
    unfolding run_def by (simp add: exampleInfo_def)
qed

text \<open>
  Claim C3, as the code has it. In every run, a pull request that is created is a draft
  exactly when the cherry-pick returned an error whose message contains \<open>conflicts\<close>.
  When the cherry-pick returned no error: once the amended commit has succeeded the local
  variable \<open>conflict\<close> is false, every pull request the run creates is not a draft, no
  comment is posted, and every label call carries exactly the labels carried over from
  the original pull request followed by the label of the port type. So \<open>portPR\<close> adds
  neither \<open>Merge Conflict\<close> nor \<open>Skip CI\<close> itself: each is applied exactly when it is
  among the carried-over labels.
\<close>

theorem clean_port:
  assumes run: "portPR svc prInfo pr sha branch portType labels h = (res, es)"
  shows "(\<forall>ow rp npr r. PullRequests_Create ow rp npr r \<in> set es \<longrightarrow>
            Draft npr = (\<exists>err. execCmd localPath ''git'' [''cherry-pick'', ''-m'', ''1'', sha] (Some err) \<in> set es
                           \<and> Contains err ''conflicts''))
       \<and> (execCmd localPath ''git'' [''cherry-pick'', ''-m'', ''1'', sha] None \<in> set es \<longrightarrow>
            (execCmd localPath ''git'' [''commit'', ''--amend'', botAuthor, ''--no-edit''] None \<in> set es \<longrightarrow>
               fst (cherryPick svc prInfo sha (newBranchName portType (GetNumber pr) branch) (h @ take 5 es))
                 = Done False)
          \<and> (\<forall>ow rp npr r. PullRequests_Create ow rp npr r \<in> set es \<longrightarrow> \<not> Draft npr)
          \<and> (\<forall>ow rp n ls r. Issues_AddLabelsToIssue ow rp n ls r \<in> set es \<longrightarrow>
                ls = labels @ (if portType = backport then [''Backport'']
                               else if portType = forwardport then [''Forwardport''] else [])
              \<and> (''Merge Conflict'' \<in> set ls \<longleftrightarrow> ''Merge Conflict'' \<in> set labels)
              \<and> (''Skip CI'' \<in> set ls \<longleftrightarrow> ''Skip CI'' \<in> set labels))
          \<and> (\<forall>ow rp n body r. Issues_CreateComment ow rp n body r \<notin> set es)
          \<and> (\<forall>n. res = Done n \<longrightarrow>
                (\<exists>created. PullRequests_Create (repoOwner prInfo) (repoName prInfo)
                     (newPR pr branch portType (newBranchName portType (GetNumber pr) branch) False)
                     (Inr created) \<in> set es \<and> GetNumber created = n)
              \<and> Issues_AddLabelsToIssue (repoOwner prInfo) (repoName prInfo) n
                   (labels @ (if portType = backport then [''Backport'']
                               else if portType = forwardport then [''Forwardport''] else [])) None \<in> set es))"
  using run
  apply (elim portPR_cases portPR_clone_cases portPR_cherryPick_cases portPR_push_paths)
  apply (simp_all add: newPR_def localPath_def cloneArgs_def labelsToAdd_clean)
  apply (auto simp: labelsToAdd_def Let_def)
  done

text \<open>
  The claim as stated fails when the original pull request itself carries one of the two
  labels: a clean port with the carried-over label \<open>Skip CI\<close> applies \<open>Skip CI\<close>.
\<close>

theorem clean_port_counterexample:
  "fst (portPR (exampleWorld cleanGit None) exampleInfo examplePR ''deadbeef'' ''release-18'' backport
          [''Skip CI''] []) = Done 7
   \<and> execCmd localPath ''git'' [''cherry-pick'', ''-m'', ''1'', ''deadbeef''] None
       \<in> set (snd (portPR (exampleWorld cleanGit None) exampleInfo examplePR ''deadbeef'' ''release-18''
                      backport [''Skip CI''] []))
   \<and> Issues_AddLabelsToIssue ''vitessio'' ''vitess'' 7 [''Skip CI'', ''Backport''] None
       \<in> set (snd (portPR (exampleWorld cleanGit None) exampleInfo examplePR ''deadbeef'' ''release-18''
                      backport [''Skip CI''] []))"
  by (simp add: portPR_steps example_defs labelsToAdd_def backport_def forwardport_def)

text \<open>The theorem at an example.\<close>

theorem clean_port_witness:
  "execCmd localPath ''git'' [''cherry-pick'', ''-m'', ''1'', ''deadbeef''] None
       \<in> set (snd (portPR (exampleWorld cleanGit None) exampleInfo examplePR ''deadbeef'' ''release-18''
                      backport [''Needs doc''] []))
   \<and> fst (portPR (exampleWorld cleanGit None) exampleInfo examplePR ''deadbeef'' ''release-18'' backport
          [''Needs doc''] []) = Done 7
   \<and> (\<exists>created.
         PullRequests_Create ''vitessio'' ''vitess''
           (newPR examplePR ''release-18'' backport (newBranchName backport 100 ''release-18'') False)
           (Inr created)
           \<in> set (snd (portPR (exampleWorld cleanGit None) exampleInfo examplePR ''deadbeef'' ''release-18''
                          backport [''Needs doc''] []))
         \<and> GetNumber created = 7)
   \<and> Issues_AddLabelsToIssue ''vitessio'' ''vitess'' 7 [''Needs doc'', ''Backport''] None
       \<in> set (snd (portPR (exampleWorld cleanGit None) exampleInfo examplePR ''deadbeef'' ''release-18''
                      backport [''Needs doc''] []))"
proof -
  define run where
    "run = portPR (exampleWorld cleanGit None) exampleInfo examplePR ''deadbeef'' ''release-18'' backport
             [''Needs doc''] []"
  have pair: "portPR (exampleWorld cleanGit None) exampleInfo examplePR ''deadbeef'' ''release-18'' backport
             [''Needs doc''] [] = (fst run, snd run)"
    by (simp add: run_def)
  have res: "fst run = Done 7"
    unfolding run_def by (simp add: portPR_steps example_defs)
  have cp: "execCmd localPath ''git'' [''cherry-pick'', ''-m'', ''1'', ''deadbeef''] None \<in> set (snd run)"
    unfolding run_def by (simp add: portPR_steps example_defs)
  have num: "GetNumber examplePR = 100"
    by (simp add: examplePR_def GetNumber_def)
  from clean_port [OF pair] res cp num show ?thesis
    unfolding run_def by (simp add: exampleInfo_def)
qed

text \<open>
  Claim C4, as the code has it. When the call that applies the labels, posts the conflict
  notice, lists the reviewers or requests them fails, \<open>portPR\<close> returns that step's
  wrapped error (with the number 0, not the number of the new pull request). The failed
  call is the last call of the run: the pull request, which has been created, is left as
  it is and the later steps are skipped. The loop of \<open>backportPR\<close> logs the error and
  goes on with the remaining branches.
\<close>

theorem failure_after_create:
  assumes run: "portPR svc prInfo pr sha branch portType labels h = (res, es)"
    and ev: "e \<in> set es"
    and failed: "failureAfterCreate e = Some msg"
  shows "res = Fail msg
       \<and> last es = e
       \<and> (\<exists>npr created. PullRequests_Create (repoOwner prInfo) (repoName prInfo) npr (Inr created) \<in> set es)
       \<and> portLoop svc prInfo pr sha portType labels (branch # rest) h =
           (case portLoop svc prInfo pr sha portType labels rest (h @ es @ [logger_Err msg msg]) of
              (r, es2) \<Rightarrow> (r, es @ [logger_Err msg msg] @ es2))"
proof -
  from run
  have "\<forall>x\<in>set es. \<forall>m. failureAfterCreate x = Some m \<longrightarrow>
          res = Fail m \<and> last es = x
        \<and> (\<exists>npr created. PullRequests_Create (repoOwner prInfo) (repoName prInfo) npr (Inr created) \<in> set es)"
    apply (elim portPR_cases portPR_clone_cases portPR_cherryPick_cases portPR_push_paths)
    apply (simp_all add: localPath_def cloneArgs_def)
    done
  with ev failed
  have "res = Fail msg \<and> last es = e
       \<and> (\<exists>npr created. PullRequests_Create (repoOwner prInfo) (repoName prInfo) npr (Inr created) \<in> set es)"
    by blast
  with run show ?thesis by simp
qed

text \<open>
  The claim as stated fails: the pull request 7 is created, the label call fails, and
  \<open>portPR\<close> returns an error.
\<close>

theorem failure_after_create_counterexample:
  "fst (portPR (exampleWorld cleanGit (Some ''502 Bad Gateway'')) exampleInfo examplePR ''deadbeef''
          ''release-18'' backport [''Needs doc''] [])
     = Fail ''Failed to assign labels to Pull Request 7: 502 Bad Gateway''
   \<and> PullRequests_Create ''vitessio'' ''vitess''
        (newPR examplePR ''release-18'' backport (newBranchName backport 100 ''release-18'') False)
        (Inr \<lparr>Number = Some 7, Title = Some ''[release-18] Fix the planner (#100)'', PR_User = None,
              Labels = [], MergeCommitSHA = None\<rparr>)
       \<in> set (snd (portPR (exampleWorld cleanGit (Some ''502 Bad Gateway'')) exampleInfo examplePR
                      ''deadbeef'' ''release-18'' backport [''Needs doc''] []))"
  by (simp add: portPR_steps example_defs labelsToAdd_def backport_def forwardport_def newPR_def
        newBranchName_def Itoa_def digits.simps Wrapf_def)

text \<open>The theorem at an example.\<close>

theorem failure_after_create_witness:
  "Issues_AddLabelsToIssue ''vitessio'' ''vitess'' 7 [''Needs doc'', ''Backport''] (Some ''502 Bad Gateway'')
     \<in> set (snd (portPR (exampleWorld cleanGit (Some ''502 Bad Gateway'')) exampleInfo examplePR ''deadbeef''
                    ''release-18'' backport [''Needs doc''] []))
   \<and> failureAfterCreate
        (Issues_AddLabelsToIssue ''vitessio'' ''vitess'' 7 [''Needs doc'', ''Backport''] (Some ''502 Bad Gateway''))
       = Some ''Failed to assign labels to Pull Request 7: 502 Bad Gateway''
   \<and> fst (portPR (exampleWorld cleanGit (Some ''502 Bad Gateway'')) exampleInfo examplePR ''deadbeef''
            ''release-18'' backport [''Needs doc''] [])
       = Fail ''Failed to assign labels to Pull Request 7: 502 Bad Gateway''
   \<and> last (snd (portPR (exampleWorld cleanGit (Some ''502 Bad Gateway'')) exampleInfo examplePR ''deadbeef''
                   ''release-18'' backport [''Needs doc''] []))
       = Issues_AddLabelsToIssue ''vitessio'' ''vitess'' 7 [''Needs doc'', ''Backport''] (Some ''502 Bad Gateway'')"
proof -
  define run where
    "run = portPR (exampleWorld cleanGit (Some ''502 Bad Gateway'')) exampleInfo examplePR ''deadbeef''
             ''release-18'' backport [''Needs doc''] []"
  have pair: "portPR (exampleWorld cleanGit (Some ''502 Bad Gateway'')) exampleInfo examplePR ''deadbeef''
             ''release-18'' backport [''Needs doc''] [] = (fst run, snd run)"
    by (simp add: run_def)
  have ev: "Issues_AddLabelsToIssue ''vitessio'' ''vitess'' 7 [''Needs doc'', ''Backport'']
              (Some ''502 Bad Gateway'') \<in> set (snd run)"
    unfolding run_def
    by (simp add: portPR_steps example_defs labelsToAdd_def backport_def forwardport_def)
  have failed: "failureAfterCreate
        (Issues_AddLabelsToIssue ''vitessio'' ''vitess'' 7 [''Needs doc'', ''Backport''] (Some ''502 Bad Gateway''))
       = Some ''Failed to assign labels to Pull Request 7: 502 Bad Gateway''"
    by (simp add: Itoa_def digits.simps Wrapf_def)
  from failure_after_create [OF pair ev failed] ev failed show ?thesis
    unfolding run_def by simp
qed

text \<open>
  Claim C5. In every run of \<open>portPR\<close> that returns the number \<open>n\<close>, the reviewers of the
  original pull request were listed, exactly one request for reviewers was made, on pull
  request \<open>n\<close>, and the set of names it carries is the union of the logins of the listed
  users, the names of the listed teams and the login of the original author.
\<close>

theorem reviewers_requested:
  assumes run: "portPR svc prInfo pr sha branch portType labels h = (Done n, es)"
  shows "\<exists>rv rs. PullRequests_ListReviewers (repoOwner prInfo) (repoName prInfo) (num prInfo) (Inr rv) \<in> set es
           \<and> filter isReviewRequest es
               = [PullRequests_RequestReviewers (repoOwner prInfo) (repoName prInfo) n rs None]
           \<and> set rs = GetLogin ` set (Users rv) \<union> Team_GetName ` set (Teams rv) \<union> {GetLogin (PR_User pr)}"
  using run
  apply (elim portPR_cases portPR_clone_cases portPR_cherryPick_cases portPR_push_paths)
  apply (simp_all add: localPath_def cloneArgs_def)
  done

text \<open>The theorem at an example.\<close>

theorem reviewers_requested_witness:
  "fst (portPR (exampleWorld cleanGit None) exampleInfo examplePR ''deadbeef'' ''release-18'' backport
          [''Needs doc''] []) = Done 7
   \<and> (\<exists>rv rs.
         PullRequests_ListReviewers ''vitessio'' ''vitess'' 100 (Inr rv)
           \<in> set (snd (portPR (exampleWorld cleanGit None) exampleInfo examplePR ''deadbeef'' ''release-18''
                          backport [''Needs doc''] []))
         \<and> filter isReviewRequest
             (snd (portPR (exampleWorld cleanGit None) exampleInfo examplePR ''deadbeef'' ''release-18''
                     backport [''Needs doc''] []))
             = [PullRequests_RequestReviewers ''vitessio'' ''vitess'' 7 rs None]
         \<and> set rs = GetLogin ` set (Users rv) \<union> Team_GetName ` set (Teams rv) \<union> {''bob''})"
proof -
  define run where
    "run = portPR (exampleWorld cleanGit None) exampleInfo examplePR ''deadbeef'' ''release-18'' backport
             [''Needs doc''] []"
  have res: "fst run = Done 7"
    unfolding run_def by (simp add: portPR_steps example_defs)
  then have pair: "portPR (exampleWorld cleanGit None) exampleInfo examplePR ''deadbeef'' ''release-18'' backport
             [''Needs doc''] [] = (Done 7, snd run)"
    by (simp add: run_def prod_eq_iff)
  have author: "GetLogin (PR_User examplePR) = ''bob''"
    by (simp add: examplePR_def GetLogin_def)
  from reviewers_requested [OF pair] res author show ?thesis
    unfolding run_def by (simp add: exampleInfo_def)
qed

text \<open>
  Claim C6. Whatever the world answers, the working branch that a run of \<open>portPR\<close> names
  when it creates the reference, checks out, pushes and opens the pull request is
  \<open>{portType}-{number}-to-{branch}\<close>, with the number of the original pull request in
  decimal: a function of the port type, the number and the target branch alone.
\<close>

theorem working_branch_name:
  assumes run: "portPR svc prInfo pr sha branch portType labels h = (res, es)"
  shows "(\<forall>ow rp ref r. Git_CreateRef ow rp ref r \<in> set es \<longrightarrow>
            Ref ref = Some (''refs/heads/'' @ portType @ ''-'' @ Itoa (GetNumber pr) @ ''-to-'' @ branch))
       \<and> (\<forall>dir args r. execCmd dir ''git'' (''checkout'' # args) r \<in> set es \<longrightarrow>
            args = [portType @ ''-'' @ Itoa (GetNumber pr) @ ''-to-'' @ branch])
       \<and> (\<forall>dir args r. execCmd dir ''git'' (''push'' # args) r \<in> set es \<longrightarrow>
            args = [''origin'', portType @ ''-'' @ Itoa (GetNumber pr) @ ''-to-'' @ branch])
       \<and> (\<forall>ow rp npr r. PullRequests_Create ow rp npr r \<in> set es \<longrightarrow>
            Head npr = portType @ ''-'' @ Itoa (GetNumber pr) @ ''-to-'' @ branch)"
  using run
  apply (elim portPR_cases portPR_clone_cases portPR_cherryPick_cases portPR_push_paths)
  apply (simp_all add: newPR_def localPath_def cloneArgs_def newBranchName_def)
  done

text \<open>The theorem at an example.\<close>

theorem working_branch_name_witness:
  "Git_CreateRef ''vitessio'' ''vitess''
     \<lparr>Ref = Some ''refs/heads/backport-100-to-release-18'', Object = Some \<lparr>SHA = Some ''0a1b2c''\<rparr>\<rparr> None
     \<in> set (snd (portPR (exampleWorld cleanGit None) exampleInfo examplePR ''deadbeef'' ''release-18'' backport
                    [''Needs doc''] []))
   \<and> Ref \<lparr>Ref = Some ''refs/heads/backport-100-to-release-18'', Object = Some \<lparr>SHA = Some ''0a1b2c''\<rparr>\<rparr>
       = Some (''refs/heads/'' @ backport @ ''-'' @ Itoa (GetNumber examplePR) @ ''-to-'' @ ''release-18'')"
proof -
  define run where
    "run = portPR (exampleWorld cleanGit None) exampleInfo examplePR ''deadbeef'' ''release-18'' backport
             [''Needs doc''] []"
  have pair: "portPR (exampleWorld cleanGit None) exampleInfo examplePR ''deadbeef'' ''release-18'' backport
             [''Needs doc''] [] = (fst run, snd run)"
    by (simp add: run_def)
  have ev: "Git_CreateRef ''vitessio'' ''vitess''
     \<lparr>Ref = Some ''refs/heads/backport-100-to-release-18'', Object = Some \<lparr>SHA = Some ''0a1b2c''\<rparr>\<rparr> None
     \<in> set (snd run)"
    unfolding run_def
    by (simp add: portPR_steps example_defs newBranchName_def backport_def Itoa_def digits.simps)
  from working_branch_name [OF pair] ev show ?thesis
    unfolding run_def by blast
qed

text \<open>
  Claim C9. When the clone command returns an error: if its message contains
  \<open>already exists and is not an empty directory\<close>, the next call of the run is
  \<open>git fetch origin\<close>; otherwise the clone is the last call and \<open>portPR\<close> returns the
  wrapped error.
\<close>

theorem clone_into_existing_path:
  assumes run: "portPR svc prInfo pr sha branch portType labels h = (res, es)"
    and ev: "execCmd '''' ''git'' (cloneArgs prInfo) (Some err) \<in> set es"
  shows "if Contains err ''already exists and is not an empty directory''
         then (\<exists>e1 e2 r rest.
                 es = e1 # e2 # execCmd '''' ''git'' (cloneArgs prInfo) (Some err)
                        # execCmd localPath ''git'' [''fetch'', ''origin''] r # rest)
         else (\<exists>e1 e2. es = [e1, e2, execCmd '''' ''git'' (cloneArgs prInfo) (Some err)])
              \<and> res = Fail (Wrapf err (''Failed to clone repository '' @ repoOwner prInfo @ ''/''
                                          @ repoName prInfo @ '' to backport Pull Request ''
                                          @ Itoa (num prInfo)))"
  using run ev
  apply (elim portPR_cases portPR_clone_cases portPR_cherryPick_cases portPR_push_paths)
  apply (simp_all add: localPath_def cloneArgs_def)
  done

text \<open>The theorem at an example.\<close>

theorem clone_into_existing_path_witness:
  "Contains ''fatal: destination path '/tmp/vitess' already exists and is not an empty directory.''
     ''already exists and is not an empty directory''
   \<and> (\<exists>e1 e2 r rest.
         snd (portPR (exampleWorld
                (cloneGit ''fatal: destination path '/tmp/vitess' already exists and is not an empty directory.'')
                None) exampleInfo examplePR ''deadbeef'' ''release-18'' backport [''Needs doc''] [])
         = e1 # e2
           # execCmd '''' ''git'' (cloneArgs exampleInfo)
               (Some ''fatal: destination path '/tmp/vitess' already exists and is not an empty directory.'')
           # execCmd localPath ''git'' [''fetch'', ''origin''] r # rest)
   \<and> \<not> Contains ''fatal: Could not read from remote repository.''
         ''already exists and is not an empty directory''
   \<and> fst (portPR (exampleWorld (cloneGit ''fatal: Could not read from remote repository.'') None)
            exampleInfo examplePR ''deadbeef'' ''release-18'' backport [''Needs doc''] [])
       = Fail (Wrapf ''fatal: Could not read from remote repository.''
                 ''Failed to clone repository vitessio/vitess to backport Pull Request 100'')"
proof -
  define run1 where
    "run1 = portPR (exampleWorld
                (cloneGit ''fatal: destination path '/tmp/vitess' already exists and is not an empty directory.'')
                None) exampleInfo examplePR ''deadbeef'' ''release-18'' backport [''Needs doc''] []"
  define run2 where
    "run2 = portPR (exampleWorld (cloneGit ''fatal: Could not read from remote repository.'') None)
            exampleInfo examplePR ''deadbeef'' ''release-18'' backport [''Needs doc''] []"
  have pair1: "portPR (exampleWorld
                (cloneGit ''fatal: destination path '/tmp/vitess' already exists and is not an empty directory.'')
                None) exampleInfo examplePR ''deadbeef'' ''release-18'' backport [''Needs doc''] []
               = (fst run1, snd run1)"
    by (simp add: run1_def)
  have pair2: "portPR (exampleWorld (cloneGit ''fatal: Could not read from remote repository.'') None)
            exampleInfo examplePR ''deadbeef'' ''release-18'' backport [''Needs doc''] []
               = (fst run2, snd run2)"
    by (simp add: run2_def)
  have ev1: "execCmd '''' ''git'' (cloneArgs exampleInfo)
               (Some ''fatal: destination path '/tmp/vitess' already exists and is not an empty directory.'')
             \<in> set (snd run1)"
    unfolding run1_def by (simp add: portPR_steps example_defs)
  have ev2: "execCmd '''' ''git'' (cloneArgs exampleInfo)
               (Some ''fatal: Could not read from remote repository.'') \<in> set (snd run2)"
    unfolding run2_def by (simp add: portPR_steps example_defs)
  have c1: "Contains ''fatal: destination path '/tmp/vitess' already exists and is not an empty directory.''
     ''already exists and is not an empty directory''"
    by (simp add: Contains_def HasPrefix_def)
  have c2: "\<not> Contains ''fatal: Could not read from remote repository.''
         ''already exists and is not an empty directory''"
    by (simp add: Contains_def HasPrefix_def)
  have n: "Itoa 100 = ''100''"
    by (simp add: Itoa_def digits.simps)
  from clone_into_existing_path [OF pair1 ev1] clone_into_existing_path [OF pair2 ev2] c1 c2 n
  show ?thesis
    unfolding run1_def run2_def by (simp add: exampleInfo_def)
qed

section \<open>The claims about backportPR\<close>

text \<open>
  Claim C7. Take any run of \<open>backportPR\<close> that got the pull request. Its trace is the
  trace of \<open>RunAll_spec\<close> on the plan's branches: one attempt per backport branch with the
  port type \<open>backport\<close>, then one per forward-port branch with the port type
  \<open>forwardport\<close>, each of them the whole of \<open>portPR\<close> for that branch with the merge
  commit and the carried-over labels of the original pull request, each followed by the
  log entry of its error when it returned one. The result and the events of an attempt
  are those of \<open>portPR\<close> at the history reached, and an error of an earlier attempt does
  not stop it: every attempt that no panic precedes has its events in the trace, right
  after those of the attempts before it. Only a panic (a looked-up reference without an
  object) ends the run early, with the attempt that panicked; otherwise \<open>backportPR\<close>
  returns nil and there is exactly one reference lookup per branch, in order.
\<close>

theorem every_branch_attempted:
  assumes run: "backportPR (Inr svc) prInfo h = (res, es)"
    and got: "srv_Get svc h (repoOwner prInfo) (repoName prInfo) (num prInfo) = Inr pr"
  shows "\<exists>p atts.
           planLabels (Labels pr) emptyPlan = Some p
         \<and> atts = RunAll_spec svc prInfo pr (GetMergeCommitSHA pr) (otherLabels p) (portJobs p)
                    (h @ [PullRequests_Get (repoOwner prInfo) (repoName prInfo) (num prInfo) (Inr pr)])
         \<and> map (\<lambda>a. (att_portType a, att_branch a)) atts = portJobs p
         \<and> (\<forall>i<length (portJobs p).
               att_result (atts ! i) =
                 fst (portPR svc prInfo pr (GetMergeCommitSHA pr) (snd (portJobs p ! i)) (fst (portJobs p ! i))
                        (otherLabels p)
                        (h @ [PullRequests_Get (repoOwner prInfo) (repoName prInfo) (num prInfo) (Inr pr)]
                           @ concat (map att_events (take i atts))))
             \<and> att_events (atts ! i) =
                 snd (portPR svc prInfo pr (GetMergeCommitSHA pr) (snd (portJobs p ! i)) (fst (portJobs p ! i))
                        (otherLabels p)
                        (h @ [PullRequests_Get (repoOwner prInfo) (repoName prInfo) (num prInfo) (Inr pr)]
                           @ concat (map att_events (take i atts))))
                 @ (case att_result (atts ! i) of Fail err \<Rightarrow> [logger_Err err err] | _ \<Rightarrow> []))
         \<and> es = PullRequests_Get (repoOwner prInfo) (repoName prInfo) (num prInfo) (Inr pr)
                  # concat (map att_events (throughPanic atts))
         \<and> res = (if panicked atts then Panic else Done ())
         \<and> (\<forall>k<length (portJobs p). (\<forall>i<k. att_result (atts ! i) \<noteq> Panic) \<longrightarrow>
               (\<exists>post. es = PullRequests_Get (repoOwner prInfo) (repoName prInfo) (num prInfo) (Inr pr)
                              # concat (map att_events (take k atts)) @ att_events (atts ! k) @ post))
         \<and> (\<not> panicked atts \<longrightarrow>
               throughPanic atts = atts
             \<and> refLookups es = map (\<lambda>b. ''heads/'' @ b) (backportBranches p @ forwardportBranches p))"
proof -
  from planLabels_total [of "Labels pr" emptyPlan] obtain p where plan: "planLabels (Labels pr) emptyPlan = Some p"
    by auto
  let ?e = "PullRequests_Get (repoOwner prInfo) (repoName prInfo) (num prInfo) (Inr pr)"
  let ?sha = "GetMergeCommitSHA pr"
  let ?a1 = "RunAll_spec svc prInfo pr ?sha (otherLabels p) (map (Pair backport) (backportBranches p)) (h @ [?e])"
  let ?a2 = "RunAll_spec svc prInfo pr ?sha (otherLabels p) (map (Pair forwardport) (forwardportBranches p))
               (h @ [?e] @ concat (map att_events ?a1))"
  let ?atts = "RunAll_spec svc prInfo pr ?sha (otherLabels p) (portJobs p) (h @ [?e])"
  have split: "?atts = ?a1 @ ?a2"
    by (simp add: portJobs_def RunAll_spec_append)
  have l1: "portLoop svc prInfo pr ?sha backport (otherLabels p) (backportBranches p) (h @ [?e])
              = (if panicked ?a1 then None else Some (), concat (map att_events (throughPanic ?a1)))"
    by (rule portLoop_RunAll)
  have l2: "portLoop svc prInfo pr ?sha forwardport (otherLabels p) (forwardportBranches p)
              (h @ [?e] @ concat (map att_events ?a1))
              = (if panicked ?a2 then None else Some (), concat (map att_events (throughPanic ?a2)))"
    by (rule portLoop_RunAll)
  have whole: "res = (if panicked ?atts then Panic else Done ())
             \<and> es = ?e # concat (map att_events (throughPanic ?atts))"
  proof (cases "panicked ?a1")
    case True
    with run got plan l1 show ?thesis
      unfolding split by (simp add: backportPR_def Let_def throughPanic_append panicked_append)
  next
    case False
    then have id1: "throughPanic ?a1 = ?a1" by (rule throughPanic_id)
    from False run got plan l1 l2 id1 show ?thesis
      unfolding split
      by (cases "panicked ?a2")
         (simp_all add: backportPR_def Let_def throughPanic_append panicked_append)
  qed
  have point: "\<forall>i<length (portJobs p).
               att_result (?atts ! i) =
                 fst (portPR svc prInfo pr ?sha (snd (portJobs p ! i)) (fst (portJobs p ! i)) (otherLabels p)
                        (h @ [?e] @ concat (map att_events (take i ?atts))))
             \<and> att_events (?atts ! i) =
                 snd (portPR svc prInfo pr ?sha (snd (portJobs p ! i)) (fst (portJobs p ! i)) (otherLabels p)
                        (h @ [?e] @ concat (map att_events (take i ?atts))))
                 @ (case att_result (?atts ! i) of Fail err \<Rightarrow> [logger_Err err err] | _ \<Rightarrow> [])"
    using RunAll_spec_nth [of _ "portJobs p" svc prInfo pr ?sha "otherLabels p" "h @ [?e]"]
    by (simp add: Let_def)
  have looks: "\<not> panicked ?atts \<longrightarrow>
               throughPanic ?atts = ?atts
             \<and> refLookups es = map (\<lambda>b. ''heads/'' @ b) (backportBranches p @ forwardportBranches p)"
  proof
    assume np: "\<not> panicked ?atts"
    then have id: "throughPanic ?atts = ?atts" by (rule throughPanic_id)
    from np whole have "backportPR (Inr svc) prInfo h = (Done (), es)"
      using run by simp
    from backportPR_lookups [OF this got] plan id
    show "throughPanic ?atts = ?atts
             \<and> refLookups es = map (\<lambda>b. ''heads/'' @ b) (backportBranches p @ forwardportBranches p)"
      by simp
  qed
  have jobs: "map (\<lambda>a. (att_portType a, att_branch a)) ?atts = portJobs p"
    by (rule RunAll_spec_jobs)
  then have len: "length ?atts = length (portJobs p)"
    by (metis length_map)
  have pos: "\<forall>k<length (portJobs p). (\<forall>i<k. att_result (?atts ! i) \<noteq> Panic) \<longrightarrow>
               (\<exists>post. es = ?e # concat (map att_events (take k ?atts)) @ att_events (?atts ! k) @ post)"
  proof (intro allI impI)
    fix k
    assume k: "k < length (portJobs p)" and before: "\<forall>i<k. att_result (?atts ! i) \<noteq> Panic"
    from k len have "k < length ?atts" by simp
    from attempt_in_trace [OF this before] obtain post where
      "concat (map att_events (throughPanic ?atts))
         = concat (map att_events (take k ?atts)) @ att_events (?atts ! k) @ post"
      by blast
    with whole show "\<exists>post. es = ?e # concat (map att_events (take k ?atts)) @ att_events (?atts ! k) @ post"
      by simp
  qed
  from plan whole point looks jobs pos
  show ?thesis by blast
qed

text \<open>The theorem at an example.\<close>

theorem every_branch_attempted_witness:
  "fst (backportPR (Inr (exampleWorld cleanGit None)) exampleInfo []) = Done ()
   \<and> srv_Get (exampleWorld cleanGit None) [] ''vitessio'' ''vitess'' 100 = Inr examplePR
   \<and> planLabels (Labels examplePR) emptyPlan
       = Some \<lparr>backportBranches = [''release-99''], forwardportBranches = [''main''],
               otherLabels = [''Needs doc'']\<rparr>
   \<and> map (\<lambda>a. (att_portType a, att_branch a))
        (RunAll_spec (exampleWorld cleanGit None) exampleInfo examplePR ''deadbeef'' [''Needs doc'']
           [(backport, ''release-99''), (forwardport, ''main'')]
           [PullRequests_Get ''vitessio'' ''vitess'' 100 (Inr examplePR)])
       = [(backport, ''release-99''), (forwardport, ''main'')]
   \<and> map att_result
        (RunAll_spec (exampleWorld cleanGit None) exampleInfo examplePR ''deadbeef'' [''Needs doc'']
           [(backport, ''release-99''), (forwardport, ''main'')]
           [PullRequests_Get ''vitessio'' ''vitess'' 100 (Inr examplePR)])
       = [Fail '': 404 Not Found'', Done 7]
   \<and> snd (backportPR (Inr (exampleWorld cleanGit None)) exampleInfo [])
       = PullRequests_Get ''vitessio'' ''vitess'' 100 (Inr examplePR)
         # concat (map att_events
             (RunAll_spec (exampleWorld cleanGit None) exampleInfo examplePR ''deadbeef'' [''Needs doc'']
                [(backport, ''release-99''), (forwardport, ''main'')]
                [PullRequests_Get ''vitessio'' ''vitess'' 100 (Inr examplePR)]))
   \<and> refLookups (snd (backportPR (Inr (exampleWorld cleanGit None)) exampleInfo []))
       = [''heads/release-99'', ''heads/main'']"
proof -
  define run where "run = backportPR (Inr (exampleWorld cleanGit None)) exampleInfo []"
  let ?get = "PullRequests_Get ''vitessio'' ''vitess'' 100 (Inr examplePR)"
  let ?atts = "RunAll_spec (exampleWorld cleanGit None) exampleInfo examplePR ''deadbeef'' [''Needs doc'']
                 [(backport, ''release-99''), (forwardport, ''main'')] [?get]"
  have plan: "planLabels (Labels examplePR) emptyPlan
       = Some \<lparr>backportBranches = [''release-99''], forwardportBranches = [''main''],
               otherLabels = [''Needs doc'']\<rparr>"
    by (simp add: examplePR_def emptyPlan_def Label_GetName_def backportLabelPrefix_def
          forwardportLabelPrefix_def HasPrefix_def Split_def genSplit.simps index1_def)
  have got: "srv_Get (exampleWorld cleanGit None) [] (repoOwner exampleInfo) (repoName exampleInfo)
               (num exampleInfo) = Inr examplePR"
    by (simp add: exampleWorld_def)
  have got': "srv_Get (exampleWorld cleanGit None) [] ''vitessio'' ''vitess'' 100 = Inr examplePR"
    by (simp add: exampleWorld_def)
  have info: "repoOwner exampleInfo = ''vitessio''" "repoName exampleInfo = ''vitess''" "num exampleInfo = 100"
    by (simp_all add: exampleInfo_def)
  have sha: "GetMergeCommitSHA examplePR = ''deadbeef''"
    by (simp add: examplePR_def GetMergeCommitSHA_def)
  have first: "portPR (exampleWorld cleanGit None) exampleInfo examplePR ''deadbeef'' ''release-99'' backport
                 [''Needs doc''] hist
               = (Fail '': 404 Not Found'',
                  [Git_GetRef ''vitessio'' ''vitess'' ''heads/release-99'' (Inl ''404 Not Found'')])" for hist
    by (simp add: portPR_def exampleWorld_def exampleInfo_def Let_def Wrapf_def)
  have second: "fst (portPR (exampleWorld cleanGit None) exampleInfo examplePR ''deadbeef'' ''main'' forwardport
                 [''Needs doc''] hist) = Done 7" for hist
    by (simp add: portPR_steps example_defs)
  have results: "map att_result ?atts = [Fail '': 404 Not Found'', Done 7]"
    by (simp add: Let_def first second)
  have calm: "\<not> panicked ?atts"
    by (simp add: panicked_def Let_def first second)
  have jobs: "portJobs \<lparr>backportBranches = [''release-99''], forwardportBranches = [''main''],
               otherLabels = [''Needs doc'']\<rparr> = [(backport, ''release-99''), (forwardport, ''main'')]"
    by (simp add: portJobs_def)
  have pair: "backportPR (Inr (exampleWorld cleanGit None)) exampleInfo [] = (fst run, snd run)"
    by (simp add: run_def)
  from every_branch_attempted [OF pair got] obtain p atts where
    p: "planLabels (Labels examplePR) emptyPlan = Some p"
    and atts: "atts = RunAll_spec (exampleWorld cleanGit None) exampleInfo examplePR
                 (GetMergeCommitSHA examplePR) (otherLabels p) (portJobs p)
                 ([] @ [PullRequests_Get (repoOwner exampleInfo) (repoName exampleInfo) (num exampleInfo)
                          (Inr examplePR)])"
    and js: "map (\<lambda>a. (att_portType a, att_branch a)) atts = portJobs p"
    and tr: "snd run = PullRequests_Get (repoOwner exampleInfo) (repoName exampleInfo) (num exampleInfo)
                         (Inr examplePR) # concat (map att_events (throughPanic atts))"
    and r: "fst run = (if panicked atts then Panic else Done ())"
    and lk: "\<not> panicked atts \<longrightarrow>
               throughPanic atts = atts
             \<and> refLookups (snd run) = map (\<lambda>b. ''heads/'' @ b) (backportBranches p @ forwardportBranches p)"
    by (elim exE conjE) blast
  from p plan have p_eq: "p = \<lparr>backportBranches = [''release-99''], forwardportBranches = [''main''],
               otherLabels = [''Needs doc'']\<rparr>"
    by simp
  from atts have atts_eq: "atts = ?atts"
    unfolding p_eq jobs by (simp add: info sha del: RunAll_spec.simps)
  from calm lk have same: "throughPanic atts = atts"
    and looks: "refLookups (snd run) = [''heads/release-99'', ''heads/main'']"
    unfolding atts_eq p_eq by simp_all
  from calm r have finished: "fst run = Done ()"
    unfolding atts_eq by simp
  from tr same have trace: "snd run = ?get # concat (map att_events ?atts)"
    unfolding atts_eq by (simp add: info del: RunAll_spec.simps)
  from js have "map (\<lambda>a. (att_portType a, att_branch a)) ?atts = [(backport, ''release-99''), (forwardport, ''main'')]"
    unfolding atts_eq p_eq jobs by simp
  with plan got' results looks finished trace show ?thesis
    unfolding run_def by (simp del: RunAll_spec.simps)
qed

text \<open>
  Claim C8. When the lookup of the target branch fails, \<open>portPR\<close> returns the wrapped
  error and the lookup is the only call it has made; the loop of \<open>backportPR\<close> logs the
  error and goes on with the remaining branches.
\<close>

theorem missing_target_branch:
  assumes "srv_GetRef svc h (repoOwner prInfo) (repoName prInfo) (''heads/'' @ branch) = Inl err"
  shows "portPR svc prInfo pr sha branch portType labels h
           = (Fail (Wrapf err ''''),
              [Git_GetRef (repoOwner prInfo) (repoName prInfo) (''heads/'' @ branch) (Inl err)])
       \<and> portLoop svc prInfo pr sha portType labels (branch # rest) h
           = (case portLoop svc prInfo pr sha portType labels rest
                     (h @ [Git_GetRef (repoOwner prInfo) (repoName prInfo) (''heads/'' @ branch) (Inl err),
                           logger_Err (Wrapf err '''') (Wrapf err '''')]) of
                (r, es2) \<Rightarrow>
                  (r, [Git_GetRef (repoOwner prInfo) (repoName prInfo) (''heads/'' @ branch) (Inl err),
                       logger_Err (Wrapf err '''') (Wrapf err '''')] @ es2))"
  using assms by (simp add: portPR_def Let_def)

text \<open>The theorem at an example.\<close>

theorem missing_target_branch_witness:
  "srv_GetRef (exampleWorld cleanGit None) [] ''vitessio'' ''vitess'' ''heads/release-99'' = Inl ''404 Not Found''
   \<and> portPR (exampleWorld cleanGit None) exampleInfo examplePR ''deadbeef'' ''release-99'' backport
        [''Needs doc''] []
       = (Fail '': 404 Not Found'',
          [Git_GetRef ''vitessio'' ''vitess'' ''heads/release-99'' (Inl ''404 Not Found'')])"
proof -
  have look: "srv_GetRef (exampleWorld cleanGit None) [] (repoOwner exampleInfo) (repoName exampleInfo)
                (''heads/'' @ ''release-99'') = Inl ''404 Not Found''"
    by (simp add: exampleWorld_def)
  from missing_target_branch [OF look, of examplePR "''deadbeef''" backport "[''Needs doc'']" "[]"] look
  show ?thesis
    by (simp add: exampleInfo_def Wrapf_def)
qed

text \<open>
  Claim C10. The planning loop never fails, and nil entries change nothing: the plan of
  a label list is the plan of the list without its nil entries, and removing one nil
  entry anywhere leaves the plan as it is.
\<close>

theorem nil_labels_skipped:
  "planLabels labels p \<noteq> None
   \<and> planLabels labels p = planLabels (filter (\<lambda>l. l \<noteq> None) labels) p
   \<and> planLabels (before @ None # after) p = planLabels (before @ after) p"
proof -
  have skip: "planLabels ls q = planLabels (filter (\<lambda>l. l \<noteq> None) ls) q" for ls q
    by (induction ls q rule: planLabels.induct) (simp_all split: option.splits)
  have "planLabels (before @ None # after) p = planLabels (filter (\<lambda>l. l \<noteq> None) (before @ None # after)) p"
    by (rule skip)
  also have "\<dots> = planLabels (filter (\<lambda>l. l \<noteq> None) (before @ after)) p"
    by simp
  also have "\<dots> = planLabels (before @ after) p"
    by (rule skip [symmetric])
  finally show ?thesis using planLabels_total [of labels p] skip [of labels p] by simp
qed

text \<open>
  Claim C1 at a label in which the prefix occurs twice. The loop takes element 1 of
  \<open>strings.Split(name, prefix)\<close>, the text between the first and the second occurrence of
  the prefix: the label \<open>Backport to: x, Backport to: y\<close> has the prefix and the suffix
  \<open>x, Backport to: y\<close>, and contributes the branch \<open>x, \<close>.
\<close>

theorem split_is_not_the_suffix:
  "planLabels [Some \<lparr>Label_Name = Some ''Backport to: x, Backport to: y''\<rparr>] emptyPlan
     = Some \<lparr>backportBranches = [''x, ''], forwardportBranches = [], otherLabels = []\<rparr>
   \<and> HasPrefix ''Backport to: x, Backport to: y'' backportLabelPrefix
   \<and> drop (length backportLabelPrefix) ''Backport to: x, Backport to: y'' = ''x, Backport to: y''"
  by (simp add: emptyPlan_def Label_GetName_def backportLabelPrefix_def HasPrefix_def
        Split_def genSplit.simps index1_def)

end
